theory Spec2Isabelle
  imports Complex_Main
begin

section \<open>Values, errors and arrays\<close>

text \<open>
  A cell of the methylation matrix is a float64.  The embedding keeps the four kinds of
  value that the code distinguishes (a number, the two infinities and NaN, pandas'
  marker of a missing entry) and idealises the numbers to the reals: rounding is not
  modelled.
\<close>

datatype fvalue = Num real | PosInf | NegInf | NaN

fun isnan :: "fvalue \<Rightarrow> bool" where
  "isnan NaN = True"
| "isnan _ = False"

text \<open>Addition as IEEE 754 has it on these four kinds: NaN absorbs, and the two
  infinities add up to NaN.\<close>

fun fadd :: "fvalue \<Rightarrow> fvalue \<Rightarrow> fvalue" where
  "fadd NaN _ = NaN"
| "fadd _ NaN = NaN"
| "fadd PosInf NegInf = NaN"
| "fadd NegInf PosInf = NaN"
| "fadd PosInf _ = PosInf"
| "fadd _ PosInf = PosInf"
| "fadd NegInf _ = NegInf"
| "fadd _ NegInf = NegInf"
| "fadd (Num a) (Num b) = Num (a + b)"

text \<open>Division by a positive count (the denominators of a mean and of a median).\<close>

fun fdiv_count :: "fvalue \<Rightarrow> nat \<Rightarrow> fvalue" where
  "fdiv_count (Num a) n = Num (a / real n)"
| "fdiv_count v n = v"

text \<open>The comparison \<open><\<close> of floats: false as soon as one side is NaN.\<close>

fun fless :: "fvalue \<Rightarrow> fvalue \<Rightarrow> bool" where
  "fless NaN _ = False"
| "fless _ NaN = False"
| "fless (Num a) (Num b) = (a < b)"
| "fless NegInf NegInf = False"
| "fless NegInf _ = True"
| "fless _ NegInf = False"
| "fless PosInf _ = False"
| "fless _ PosInf = True"

text \<open>The exceptions that the modelled functions raise.  \<open>LibraryError\<close> stands for
  whatever an external routine (scipy, scikit-learn) raises.\<close>

datatype py_error =
  UnboundLocalError | AttributeError | KeyError | IndexError | ValueError
  | LibraryError string

definition ebind :: "py_error + 'a \<Rightarrow> ('a \<Rightarrow> py_error + 'b) \<Rightarrow> py_error + 'b" where
  "ebind m f = (case m of Inl e \<Rightarrow> Inl e | Inr x \<Rightarrow> f x)"

text \<open>A two-dimensional array is the list of its rows.\<close>

type_synonym matrix = "fvalue list list"

definition rectangular :: "matrix \<Rightarrow> nat \<Rightarrow> bool" where
  "rectangular a m = list_all (\<lambda>row. length row = m) a"

definition ncols :: "matrix \<Rightarrow> nat" where
  "ncols a = (case a of [] \<Rightarrow> 0 | row # _ \<Rightarrow> length row)"

section \<open>numba\_fillna\<close>

text \<open>\<open>array.sum()\<close>: the sum of all the entries.\<close>

definition array_sum :: "matrix \<Rightarrow> fvalue" where
  "array_sum a = foldl fadd (Num 0) (concat a)"

text \<open>
  One row of \<open>np.where(np.isnan(array), values, array)\<close>.  numpy broadcasts the
  one-dimensional \<open>values\<close> along the rows: the lengths have to agree, or one of them
  has to be 1.
\<close>

definition where_row :: "fvalue list \<Rightarrow> fvalue list \<Rightarrow> fvalue list" where
  "where_row row values =
     (if length row = length values then map2 (\<lambda>x v. if isnan x then v else x) row values
      else if length values = 1 then map (\<lambda>x. if isnan x then hd values else x) row
      else map (\<lambda>v. if isnan (hd row) then v else hd row) values)"

definition np_where_isnan :: "matrix \<Rightarrow> fvalue list \<Rightarrow> py_error + matrix" where
  "np_where_isnan a values =
     (if ncols a = length values \<or> length values = 1 \<or> ncols a = 1
      then Inr (map (\<lambda>row. where_row row values) a)
      else Inl ValueError)"

definition numba_fillna :: "matrix \<Rightarrow> fvalue list \<Rightarrow> py_error + matrix" where
  "numba_fillna a values =
     (if isnan (array_sum a) then np_where_isnan a values else Inr a)"

section \<open>Data frames\<close>

text \<open>
  A pandas DataFrame: the row labels (sample ids), the column labels (feature ids) and
  the values, row by row.
\<close>

record dataframe =
  df_index :: "string list"
  df_columns :: "string list"
  df_values :: matrix

text \<open>\<open>pd.DataFrame(data=..., index=..., columns=...)\<close> raises when the shape of the
  data does not fit the labels.\<close>

definition make_dataframe :: "matrix \<Rightarrow> string list \<Rightarrow> string list \<Rightarrow> py_error + dataframe" where
  "make_dataframe a idx cols =
     (if length a = length idx \<and> rectangular a (length cols)
      then Inr \<lparr>df_index = idx, df_columns = cols, df_values = a\<rparr>
      else Inl ValueError)"

text \<open>Positional selection \<open>.iloc[positions]\<close> of a Series and of the rows of a
  DataFrame; a position past the end raises IndexError.\<close>

definition take_rows :: "'a list \<Rightarrow> nat list \<Rightarrow> py_error + 'a list" where
  "take_rows xs positions =
     (if list_all (\<lambda>i. i < length xs) positions
      then Inr (map (\<lambda>i. xs ! i) positions)
      else Inl IndexError)"

definition iloc :: "dataframe \<Rightarrow> nat list \<Rightarrow> py_error + dataframe" where
  "iloc df positions =
     (if list_all (\<lambda>i. i < length (df_values df)) positions
      then Inr (df\<lparr>df_index := map (\<lambda>i. df_index df ! i) positions,
                   df_values := map (\<lambda>i. df_values df ! i) positions\<rparr>)
      else Inl IndexError)"

definition column :: "matrix \<Rightarrow> nat \<Rightarrow> fvalue list" where
  "column a j = map (\<lambda>row. row ! j) a"

text \<open>The data frame restricted to the columns at the given positions, in that order.\<close>

definition select_columns :: "dataframe \<Rightarrow> nat list \<Rightarrow> dataframe" where
  "select_columns df positions =
     df\<lparr>df_columns := map (\<lambda>j. df_columns df ! j) positions,
        df_values := map (\<lambda>row. map (\<lambda>j. row ! j) positions) (df_values df)\<rparr>"

text \<open>\<open>df.dropna(how="any", axis=1)\<close>: a column stays when none of its entries is NaN.\<close>

definition dropna_any :: "dataframe \<Rightarrow> dataframe" where
  "dropna_any df =
     select_columns df
       (filter (\<lambda>j. list_all (\<lambda>x. \<not> isnan x) (column (df_values df) j))
          [0..<length (df_columns df)])"

text \<open>\<open>df.loc[:, names]\<close>: for each requested label, in order, the columns that carry
  it (exactly one when the labels of the frame are distinct); a label that the frame does
  not have raises KeyError.\<close>

definition positions_of :: "string list \<Rightarrow> string \<Rightarrow> nat list" where
  "positions_of cols name = filter (\<lambda>j. cols ! j = name) [0..<length cols]"

definition loc_columns :: "dataframe \<Rightarrow> string list \<Rightarrow> py_error + dataframe" where
  "loc_columns df names =
     (if list_all (\<lambda>n. n \<in> set (df_columns df)) names
      then Inr (select_columns df (concat (map (positions_of (df_columns df)) names)))
      else Inl KeyError)"

section \<open>Imputation values\<close>

text \<open>\<open>df.mean()\<close> and \<open>df.median()\<close> work column by column and skip NaN; a column
  without any observed value has the statistic NaN.\<close>

definition mean_skipna :: "fvalue list \<Rightarrow> fvalue" where
  "mean_skipna xs =
     (let ys = filter (\<lambda>x. \<not> isnan x) xs
      in if ys = [] then NaN else fdiv_count (foldl fadd (Num 0) ys) (length ys))"

fun finsert :: "fvalue \<Rightarrow> fvalue list \<Rightarrow> fvalue list" where
  "finsert x [] = [x]"
| "finsert x (y # ys) = (if fless y x then y # finsert x ys else x # y # ys)"

definition fsort :: "fvalue list \<Rightarrow> fvalue list" where
  "fsort xs = foldr finsert xs []"

definition median_skipna :: "fvalue list \<Rightarrow> fvalue" where
  "median_skipna xs =
     (let ys = fsort (filter (\<lambda>x. \<not> isnan x) xs); n = length ys
      in if n = 0 then NaN
         else if odd n then ys ! (n div 2)
         else fdiv_count (fadd (ys ! (n div 2 - 1)) (ys ! (n div 2))) 2)"

text \<open>
  \<open>feature_imputation_values(df, nan_policy)\<close>: one fill value per column.  With any
  other policy the function prints a message and then returns the local \<open>imp_vals\<close>
  that no branch has bound, which raises UnboundLocalError.
\<close>

definition feature_imputation_values :: "dataframe \<Rightarrow> string \<Rightarrow> py_error + fvalue list" where
  "feature_imputation_values df nan_policy =
     (if nan_policy = ''impute_by_mean''
      then Inr (map (\<lambda>j. mean_skipna (column (df_values df) j)) [0..<length (df_columns df)])
      else if nan_policy = ''impute_by_median''
      then Inr (map (\<lambda>j. median_skipna (column (df_values df) j)) [0..<length (df_columns df)])
      else if nan_policy = ''zeros''
      then Inr (replicate (length (df_columns df)) (Num 0))
      else Inl UnboundLocalError)"

section \<open>The external routines\<close>

text \<open>
  scipy's two-sample tests, scikit-learn's splitters, its StandardScaler and its
  LogisticRegressionCV are not part of the repository.  They are parameters of the
  embedding: a record of functions, each of which may raise.  \<open>'s\<close> is the type of a
  fitted scaler and \<open>'m\<close> the type of a fitted classifier.
\<close>

text \<open>The \<open>Cs\<close> argument of LogisticRegressionCV is either a number of grid points or
  an explicit grid.\<close>

datatype cs_arg = Cs_count nat | Cs_grid "real list"

text \<open>The keyword arguments with which \<open>model_definition\<close> builds a
  LogisticRegressionCV; an argument that a call leaves out has the library's default
  (\<open>Cs=10\<close>, \<open>solver='lbfgs'\<close>, \<open>l1_ratios=None\<close>, \<open>n_jobs=None\<close>).\<close>

record lr_params =
  lr_cv :: nat
  lr_random_state :: nat
  lr_penalty :: string
  lr_solver :: string
  lr_Cs :: cs_arg
  lr_l1_ratios :: "real list option"
  lr_n_jobs :: "int option"
  lr_max_iter :: nat
  lr_class_weight :: "string option"

text \<open>The \<open>CV\<close> argument: \<open>"LOO"\<close> or a number of folds.\<close>

datatype cv_arg = LOO | KFold nat

record ('m, 's) sklearn =
  mannwhitneyu :: "matrix \<Rightarrow> matrix \<Rightarrow> py_error + fvalue list"
  ttest_ind :: "matrix \<Rightarrow> matrix \<Rightarrow> py_error + fvalue list"
  cv_split :: "cv_arg \<Rightarrow> dataframe \<Rightarrow> py_error + (nat list \<times> nat list) list"
  scaler_fit :: "matrix \<Rightarrow> py_error + 's"
  scaler_transform :: "'s \<Rightarrow> matrix \<Rightarrow> py_error + matrix"
  lr_fit :: "lr_params \<Rightarrow> matrix \<Rightarrow> int option list \<Rightarrow> py_error + 'm"
  lr_predict :: "'m \<Rightarrow> matrix \<Rightarrow> py_error + int list"
  lr_predict_proba :: "'m \<Rightarrow> matrix \<Rightarrow> py_error + matrix"

section \<open>Feature selection\<close>

text \<open>\<open>np.where(mask)[0]\<close>: the positions at which the flag is true.\<close>

definition np_where :: "bool list \<Rightarrow> nat list" where
  "np_where flags = filter (\<lambda>i. flags ! i) [0..<length flags]"

text \<open>\<open>itertools.compress(data, selectors)\<close>: the elements of \<open>data\<close> whose selector,
  at the same position, is truthy; it stops with the shorter of the two.  The selectors
  here are integers, and an integer is truthy when it is not 0.\<close>

definition compress :: "'a list \<Rightarrow> nat list \<Rightarrow> 'a list" where
  "compress data selectors = map fst (filter (\<lambda>(d, s). s \<noteq> 0) (zip data selectors))"

text \<open>The rows of the two groups, \<open>df.iloc[np.where(y==0)[0], :]\<close> and
  \<open>df.iloc[np.where(y==1)[0], :]\<close>.\<close>

definition group_rows :: "dataframe \<Rightarrow> int option list \<Rightarrow> int \<Rightarrow> py_error + dataframe" where
  "group_rows df y label = iloc df (np_where (map (\<lambda>t. t = Some label) y))"

definition select_features ::
  "('m, 's) sklearn \<Rightarrow> dataframe \<Rightarrow> int option list \<Rightarrow> string \<Rightarrow> fvalue \<Rightarrow> py_error + string list" where
  "select_features ext df y sel_by pval_thresh =
     (if sel_by = ''wilcox'' then
        ebind (group_rows df y 0) (\<lambda>g0.
        ebind (group_rows df y 1) (\<lambda>g1.
        ebind (mannwhitneyu ext (df_values g0) (df_values g1)) (\<lambda>p_vals.
        Inr (compress (df_columns df) (np_where (map (\<lambda>p. fless p pval_thresh) p_vals))))))
      else if sel_by = ''ttest'' then
        ebind (group_rows df y 0) (\<lambda>g0.
        ebind (group_rows df y 1) (\<lambda>g1.
        ebind (ttest_ind ext (df_values g0) (df_values g1)) (\<lambda>p_vals.
        Inr (compress (df_columns df) (np_where (map (\<lambda>p. fless p pval_thresh) p_vals))))))
      else Inr (df_columns df))"

section \<open>Model definition, scaling, training\<close>

text \<open>\<open>np.logspace(start, stop, num)\<close>: powers of ten at evenly spaced exponents.\<close>

definition logspace :: "real \<Rightarrow> real \<Rightarrow> nat \<Rightarrow> real list" where
  "logspace start stop num =
     map (\<lambda>i. 10 powr (start + real i * ((stop - start) / real (num - 1)))) [0..<num]"

text \<open>
  \<open>model_definition\<close>.  A penalty that no branch recognises prints a message and then
  returns the local \<open>model\<close> that no branch has bound, which raises UnboundLocalError.
\<close>

definition model_definition ::
  "string option \<Rightarrow> nat \<Rightarrow> nat \<Rightarrow> int \<Rightarrow> cs_arg option \<Rightarrow> real list option \<Rightarrow> nat \<Rightarrow> string option
   \<Rightarrow> py_error + lr_params" where
  "model_definition penalty seed internalCV_folds n_jobs Cs l1_ratios max_iter class_weight =
     (let l1_Cs = (case Cs of None \<Rightarrow> Cs_grid (logspace (- 4) 6 10) | Some c \<Rightarrow> c);
          l2_Cs = (case Cs of None \<Rightarrow> Cs_count 10 | Some c \<Rightarrow> c);
          l1_ratios = (case l1_ratios of None \<Rightarrow> [0.1, 0.5, 0.9] | Some r \<Rightarrow> r)
      in case penalty of
           None \<Rightarrow>
             Inr \<lparr>lr_cv = internalCV_folds, lr_random_state = seed, lr_penalty = ''l2'',
                  lr_solver = ''lbfgs'', lr_Cs = Cs_grid [100000], lr_l1_ratios = None,
                  lr_n_jobs = None, lr_max_iter = max_iter, lr_class_weight = class_weight\<rparr>
         | Some p \<Rightarrow>
             if p = ''l1'' then
               Inr \<lparr>lr_cv = internalCV_folds, lr_random_state = seed, lr_penalty = ''l1'',
                    lr_solver = ''liblinear'', lr_Cs = l1_Cs, lr_l1_ratios = None,
                    lr_n_jobs = Some n_jobs, lr_max_iter = max_iter,
                    lr_class_weight = class_weight\<rparr>
             else if p = ''l2'' then
               Inr \<lparr>lr_cv = internalCV_folds, lr_random_state = seed, lr_penalty = ''l2'',
                    lr_solver = ''lbfgs'', lr_Cs = l2_Cs, lr_l1_ratios = None,
                    lr_n_jobs = None, lr_max_iter = max_iter, lr_class_weight = class_weight\<rparr>
             else if p = ''elasticnet'' then
               Inr \<lparr>lr_cv = internalCV_folds, lr_random_state = seed,
                    lr_penalty = ''elasticnet'', lr_solver = ''saga'', lr_Cs = Cs_count 10,
                    lr_l1_ratios = Some l1_ratios, lr_n_jobs = None, lr_max_iter = max_iter,
                    lr_class_weight = class_weight\<rparr>
             else Inl UnboundLocalError)"

definition scale_train_data :: "('m, 's) sklearn \<Rightarrow> matrix \<Rightarrow> py_error + (matrix \<times> 's)" where
  "scale_train_data ext X_train =
     ebind (scaler_fit ext X_train) (\<lambda>scaler.
     ebind (scaler_transform ext scaler X_train) (\<lambda>X_train_scaled.
     Inr (X_train_scaled, scaler)))"

text \<open>\<open>a[:, 1]\<close>: the entry at position 1 of every row.\<close>

definition second_column :: "matrix \<Rightarrow> py_error + fvalue list" where
  "second_column a =
     (if list_all (\<lambda>row. 1 < length row) a then Inr (map (\<lambda>row. row ! 1) a)
      else Inl IndexError)"

definition train_test ::
  "('m, 's) sklearn \<Rightarrow> matrix \<Rightarrow> matrix \<Rightarrow> int option list \<Rightarrow> string option \<Rightarrow> nat \<Rightarrow> nat \<Rightarrow> int
   \<Rightarrow> py_error + ('m \<times> 's \<times> int list \<times> fvalue list)" where
  "train_test ext X_train X_test y_train penalty seed internalCV_folds n_jobs =
     ebind (scale_train_data ext X_train) (\<lambda>(X_train_scaled, scaler).
     ebind (scaler_transform ext scaler X_test) (\<lambda>X_test_scaled.
     ebind (model_definition penalty seed internalCV_folds n_jobs None None 1000
              (Some ''balanced'')) (\<lambda>params.
     ebind (lr_fit ext params X_train_scaled y_train) (\<lambda>model.
     ebind (lr_predict ext model X_test_scaled) (\<lambda>y_pred.
     ebind (lr_predict_proba ext model X_test_scaled) (\<lambda>proba.
     ebind (second_column proba) (\<lambda>y_pred_prob.
     Inr (model, scaler, y_pred, y_pred_prob))))))))"

section \<open>The Dataset object and its targets\<close>

text \<open>
  The attributes of a \<open>Dataset\<close> that target assignment and cross validation use:
  the sample-by-feature frame \<open>df\<close>, the table \<open>groups\<close> (sample id and the entry of
  its \<open>Group\<close> column, which may be empty), and the two attributes that
  \<open>add_target_lables\<close> sets, \<open>y\<close> and \<open>orig_label_names\<close>; \<open>None\<close> is an attribute
  that has not been set.  A target is 0, 1 or missing (NaN).
\<close>

record dataset =
  ds_df :: dataframe
  ds_groups :: "(string \<times> string option) list"
  ds_y :: "int option list option"
  ds_orig_label_names :: "string option list option"

text \<open>\<open>Series.unique()\<close>: the distinct values in the order of their first appearance.\<close>

definition unique :: "'a list \<Rightarrow> 'a list" where
  "unique xs = rev (remdups (rev xs))"

text \<open>The group label of every sample of the frame, in the order of the frame; it is
  missing for a sample that the table does not list.\<close>

definition orig_labels_of :: "dataset \<Rightarrow> string option list" where
  "orig_labels_of ds =
     map (\<lambda>s. case map_of (ds_groups ds) s of None \<Rightarrow> None | Some g \<Rightarrow> g)
       (df_index (ds_df ds))"

text \<open>
  \<open>Dataset.add_target_lables\<close>.  When the labels do not contain both \<open>'case'\<close> and
  \<open>'control'\<close>, the method prints a message and sets no target; the lines that follow
  read \<open>self.y\<close> all the same, and look up the counts of 0 and of 1.
\<close>

definition add_target_lables :: "dataset \<Rightarrow> py_error + dataset" where
  "add_target_lables ds =
     (let orig_labels = orig_labels_of ds;
          orig_label_names = unique orig_labels;
          ds1 = ds\<lparr>ds_orig_label_names := Some orig_label_names\<rparr>;
          ds2 = (if Some ''case'' \<in> set orig_label_names \<and> Some ''control'' \<in> set orig_label_names
                 then ds1\<lparr>ds_y := Some (map (\<lambda>l. case l of None \<Rightarrow> None
                                        | Some x \<Rightarrow> Some (if x = ''control'' then 0 else 1))
                                      orig_labels)\<rparr>
                 else ds1)
      in case ds_y ds2 of
           None \<Rightarrow> Inl AttributeError
         | Some y \<Rightarrow> if Some 0 \<in> set y \<and> Some 1 \<in> set y then Inr ds2 else Inl KeyError)"

section \<open>Cross validation\<close>

text \<open>The lists that the loop of \<open>cv_train_test\<close> appends to, fold after fold.\<close>

record ('m, 's) cv_lists =
  X_tests :: "matrix list"
  y_tests :: "int option list list"
  models :: "'m list"
  scalers_acc :: "'s list"
  feats_used :: "string list list"
  y_preds :: "int list list"
  pred_probs :: "fvalue list list"

record run_params =
  rp_penalty :: "string option"
  rp_CV :: cv_arg
  rp_internalCV_folds :: nat
  rp_feat_selection :: "string option"
  rp_nan_policy :: "string option"
  rp_timestamp :: string

text \<open>The dictionary that \<open>cv_train_test\<close> returns.\<close>

record ('m, 's) cv_outputs =
  trained_models :: "'m list"
  scalers :: "'s list"
  features_used :: "string list list"
  X_test_data :: "matrix list"
  y_test :: "int option list list"
  y_pred :: "int list"
  y_pred_prob :: "fvalue list list"
  run_params :: run_params

text \<open>Train-test splitting of one fold: the rows of the frame and of the targets at the
  train and at the test positions.\<close>

definition fold_split ::
  "dataset \<Rightarrow> nat list \<Rightarrow> nat list
   \<Rightarrow> py_error + (dataframe \<times> dataframe \<times> int option list \<times> int option list)" where
  "fold_split ds train_index test_index =
     ebind (iloc (ds_df ds) train_index) (\<lambda>df_train.
     ebind (iloc (ds_df ds) test_index) (\<lambda>df_test.
     ebind (case ds_y ds of None \<Rightarrow> Inl AttributeError | Some y \<Rightarrow> Inr y) (\<lambda>y.
     ebind (take_rows y train_index) (\<lambda>y_train.
     ebind (take_rows y test_index) (\<lambda>y_test.
     Inr (df_train, df_test, y_train, y_test))))))"

text \<open>The features with a NaN in the train set leave the train set, and the test set
  is restricted to the columns of the train set.\<close>

definition fold_dropna :: "dataframe \<Rightarrow> dataframe \<Rightarrow> py_error + (dataframe \<times> dataframe)" where
  "fold_dropna df_train df_test =
     (let df_train' = dropna_any df_train
      in ebind (loc_columns df_test (df_columns df_train')) (\<lambda>df_test'.
         Inr (df_train', df_test')))"

text \<open>Imputation in a fold, when a policy is given: the values come from the train set
  and fill the train set and the test set.  The first component is \<open>imp_vals\<close>.\<close>

definition fold_impute ::
  "string option \<Rightarrow> dataframe \<Rightarrow> dataframe
   \<Rightarrow> py_error + (fvalue list option \<times> dataframe \<times> dataframe)" where
  "fold_impute nan_policy df_train df_test =
     (case nan_policy of
        None \<Rightarrow> Inr (None, df_train, df_test)
      | Some policy \<Rightarrow>
          ebind (feature_imputation_values df_train policy) (\<lambda>imp_vals.
          ebind (numba_fillna (df_values df_train) imp_vals) (\<lambda>a_train.
          ebind (make_dataframe a_train (df_index df_train) (df_columns df_train)) (\<lambda>df_train'.
          ebind (numba_fillna (df_values df_test) imp_vals) (\<lambda>a_test.
          ebind (make_dataframe a_test (df_index df_test) (df_columns df_test)) (\<lambda>df_test'.
          Inr (Some imp_vals, df_train', df_test')))))))"

text \<open>Everything a fold does before feature selection.\<close>

definition fold_preprocess ::
  "dataset \<Rightarrow> string option \<Rightarrow> nat list \<Rightarrow> nat list
   \<Rightarrow> py_error + (fvalue list option \<times> dataframe \<times> dataframe \<times> int option list \<times> int option list)" where
  "fold_preprocess ds nan_policy train_index test_index =
     ebind (fold_split ds train_index test_index) (\<lambda>(df_train, df_test, y_train, y_test).
     ebind (fold_dropna df_train df_test) (\<lambda>(df_train1, df_test1).
     ebind (fold_impute nan_policy df_train1 df_test1) (\<lambda>(imp_vals, df_train2, df_test2).
     Inr (imp_vals, df_train2, df_test2, y_train, y_test))))"

text \<open>Feature selection in a fold, on the train set, and the two matrices restricted to
  the features kept.\<close>

definition fold_select ::
  "('m, 's) sklearn \<Rightarrow> string option \<Rightarrow> fvalue \<Rightarrow> dataframe \<Rightarrow> dataframe \<Rightarrow> int option list
   \<Rightarrow> py_error + (string list \<times> matrix \<times> matrix)" where
  "fold_select ext feat_selection feat_selection_pval_thresh df_train df_test y_train =
     ebind (case feat_selection of
              Some sel_by \<Rightarrow> select_features ext df_train y_train sel_by feat_selection_pval_thresh
            | None \<Rightarrow> Inr (df_columns df_train)) (\<lambda>feats_to_keep.
     ebind (loc_columns df_train feats_to_keep) (\<lambda>sub_train.
     ebind (loc_columns df_test feats_to_keep) (\<lambda>sub_test.
     Inr (feats_to_keep, df_values sub_train, df_values sub_test))))"

text \<open>The body of the loop: one fold, appending to the lists.\<close>

definition cv_fold ::
  "('m, 's) sklearn \<Rightarrow> dataset \<Rightarrow> string option \<Rightarrow> nat \<Rightarrow> string option \<Rightarrow> fvalue \<Rightarrow> string option
   \<Rightarrow> ('m, 's) cv_lists \<Rightarrow> nat list \<times> nat list \<Rightarrow> py_error + ('m, 's) cv_lists" where
  "cv_fold ext ds penalty internalCV_folds feat_selection feat_selection_pval_thresh nan_policy
       acc split =
     ebind (fold_preprocess ds nan_policy (fst split) (snd split))
       (\<lambda>(imp_vals, df_train, df_test, y_train, y_test_fold).
     ebind (fold_select ext feat_selection feat_selection_pval_thresh df_train df_test y_train)
       (\<lambda>(feats_to_keep, X_train, X_test).
     ebind (train_test ext X_train X_test y_train penalty 42 internalCV_folds (- 1))
       (\<lambda>(model, scaler, y_pred_fold, y_pred_prob_fold).
     Inr (acc\<lparr>X_tests := X_tests acc @ [X_test],
               y_tests := y_tests acc @ [y_test_fold],
               models := models acc @ [model],
               scalers_acc := scalers_acc acc @ [scaler],
               feats_used := feats_used acc @ [feats_to_keep],
               y_preds := y_preds acc @ [y_pred_fold],
               pred_probs := pred_probs acc @ [y_pred_prob_fold]\<rparr>))))"

fun cv_loop ::
  "('m, 's) sklearn \<Rightarrow> dataset \<Rightarrow> string option \<Rightarrow> nat \<Rightarrow> string option \<Rightarrow> fvalue \<Rightarrow> string option
   \<Rightarrow> ('m, 's) cv_lists \<Rightarrow> (nat list \<times> nat list) list \<Rightarrow> py_error + ('m, 's) cv_lists" where
  "cv_loop ext ds penalty internalCV_folds feat_selection thresh nan_policy acc [] = Inr acc"
| "cv_loop ext ds penalty internalCV_folds feat_selection thresh nan_policy acc (split # rest) =
     ebind (cv_fold ext ds penalty internalCV_folds feat_selection thresh nan_policy acc split)
       (\<lambda>acc'. cv_loop ext ds penalty internalCV_folds feat_selection thresh nan_policy acc' rest)"

definition empty_lists :: "('m, 's) cv_lists" where
  "empty_lists =
     \<lparr>X_tests = [], y_tests = [], models = [], scalers_acc = [], feats_used = [],
      y_preds = [], pred_probs = []\<rparr>"

text \<open>
  \<open>cv_train_test\<close>.  The splitter is external, and so is the clock: \<open>timestamp\<close> is
  the time that the run reads at its end.
\<close>

definition cv_train_test ::
  "('m, 's) sklearn \<Rightarrow> string \<Rightarrow> dataset \<Rightarrow> cv_arg \<Rightarrow> string option \<Rightarrow> nat \<Rightarrow> string option \<Rightarrow> fvalue
   \<Rightarrow> string option \<Rightarrow> py_error + ('m, 's) cv_outputs" where
  "cv_train_test ext timestamp ds CV penalty internalCV_folds feat_selection
       feat_selection_pval_thresh nan_policy =
     ebind (cv_split ext CV (ds_df ds)) (\<lambda>splits.
     ebind (cv_loop ext ds penalty internalCV_folds feat_selection feat_selection_pval_thresh
              nan_policy empty_lists splits) (\<lambda>acc.
     Inr \<lparr>trained_models = models acc, scalers = scalers_acc acc,
          features_used = feats_used acc, X_test_data = X_tests acc, y_test = y_tests acc,
          y_pred = concat (y_preds acc), y_pred_prob = pred_probs acc,
          run_params = \<lparr>rp_penalty = penalty, rp_CV = CV,
                         rp_internalCV_folds = internalCV_folds,
                         rp_feat_selection = feat_selection, rp_nan_policy = nan_policy,
                         rp_timestamp = timestamp\<rparr>\<rparr>))"

section \<open>Example data\<close>

text \<open>Small concrete inputs, on which the theorems below are instantiated.\<close>

definition example_array :: matrix where
  "example_array = [[Num 1, NaN], [PosInf, NegInf]]"

text \<open>A splitter in the way of scikit-learn's KFold without shuffling and of LeaveOneOut.\<close>

definition kfold_splits :: "nat \<Rightarrow> nat \<Rightarrow> (nat list \<times> nat list) list" where
  "kfold_splits k n =
     map (\<lambda>f. let start = f * (n div k) + min f (n mod k);
                   stop = start + n div k + (if f < n mod k then 1 else 0)
               in (filter (\<lambda>i. i < start \<or> stop \<le> i) [0..<n], [start..<stop]))
       [0..<k]"

definition example_split :: "cv_arg \<Rightarrow> dataframe \<Rightarrow> py_error + (nat list \<times> nat list) list" where
  "example_split cv df =
     (let n = length (df_values df)
      in case cv of
           LOO \<Rightarrow> if n < 2 then Inl ValueError else Inr (kfold_splits n n)
         | KFold k \<Rightarrow> if k < 2 \<or> n < k then Inl ValueError else Inr (kfold_splits k n))"

text \<open>Stand-ins for the external routines, for the examples only: the two tests return
  the exact two-sided Mann-Whitney p-values of the two features of \<open>example_df\<close> under
  \<open>example_y\<close>, the scaler is the identity, the classifier records the arguments of its
  fit as the fitted model and predicts class 1 with probability 3/4.\<close>

definition example_sklearn :: "(lr_params \<times> matrix \<times> int option list, matrix) sklearn" where
  "example_sklearn =
     \<lparr>mannwhitneyu = (\<lambda>g0 g1. Inr [Num (24 / 35), Num (1 / 35)]),
      ttest_ind = (\<lambda>g0 g1. Inr [Num (24 / 35), Num (1 / 35)]),
      cv_split = example_split,
      scaler_fit = (\<lambda>X. Inr X),
      scaler_transform = (\<lambda>s X. Inr X),
      lr_fit = (\<lambda>params X y. Inr (params, X, y)),
      lr_predict = (\<lambda>m X. Inr (map (\<lambda>row. 1) X)),
      lr_predict_proba = (\<lambda>m X. Inr (map (\<lambda>row. [Num (1 / 4), Num (3 / 4)]) X))\<rparr>"

definition example_df :: dataframe where
  "example_df =
     \<lparr>df_index = [''s0'', ''s1'', ''s2'', ''s3'', ''s4'', ''s5'', ''s6'', ''s7''],
      df_columns = [''cg0'', ''cg1''],
      df_values = [[Num (10 / 100), Num (10 / 100)], [Num (15 / 100), Num (60 / 100)],
                   [Num (20 / 100), Num (20 / 100)], [Num (25 / 100), Num (70 / 100)],
                   [Num (30 / 100), Num (30 / 100)], [Num (35 / 100), Num (80 / 100)],
                   [Num (40 / 100), Num (40 / 100)], [Num (45 / 100), Num (90 / 100)]]\<rparr>"

definition example_y :: "int option list" where
  "example_y = [Some 0, Some 1, Some 0, Some 1, Some 0, Some 1, Some 0, Some 1]"

text \<open>A dataset of four samples: a case, a control, a sample whose group label is
  neither, and a sample that the group table does not list (the table lists a sample
  that the matrix does not have).\<close>

definition example_labelled :: dataset where
  "example_labelled =
     \<lparr>ds_df = \<lparr>df_index = [''s0'', ''s1'', ''s2'', ''s3''], df_columns = [''cg0''],
               df_values = [[Num (1 / 10)], [Num (2 / 10)], [NaN], [Num (4 / 10)]]\<rparr>,
      ds_groups = [(''s0'', Some ''case''), (''s1'', Some ''control''),
                   (''s2'', Some ''unknown''), (''s9'', Some ''case'')],
      ds_y = None, ds_orig_label_names = None\<rparr>"

text \<open>A dataset with missing values, and the same dataset with another first row.\<close>

definition example_ds :: dataset where
  "example_ds =
     \<lparr>ds_df = \<lparr>df_index = [''s0'', ''s1'', ''s2'', ''s3''],
               df_columns = [''cg0'', ''cg1'', ''cg2''],
               df_values = [[Num (1 / 10), NaN, Num (5 / 10)],
                            [Num (2 / 10), Num (3 / 10), NaN],
                            [Num (4 / 10), Num (6 / 10), Num (7 / 10)],
                            [NaN, Num (8 / 10), Num (9 / 10)]]\<rparr>,
      ds_groups = [], ds_y = Some [Some 0, Some 1, None, Some 1],
      ds_orig_label_names = None\<rparr>"

definition example_ds_other_test :: dataset where
  "example_ds_other_test =
     example_ds\<lparr>ds_df := (ds_df example_ds)
       \<lparr>df_values := [[Num 1, Num 1, NaN],
                      [Num (2 / 10), Num (3 / 10), NaN],
                      [Num (4 / 10), Num (6 / 10), Num (7 / 10)],
                      [NaN, Num (8 / 10), Num (9 / 10)]]\<rparr>\<rparr>"

text \<open>The example frame with its targets, as a dataset for cross validation.\<close>

definition example_cv_ds :: dataset where
  "example_cv_ds =
     \<lparr>ds_df = example_df, ds_groups = [], ds_y = Some example_y, ds_orig_label_names = None\<rparr>"

section \<open>Properties of numba\_fillna\<close>

lemma where_row_aligned:
  "length row = length values \<Longrightarrow>
   where_row row values = map2 (\<lambda>x v. if isnan x then v else x) row values"
  by (simp add: where_row_def)

lemma where_row_length:
  "length row = length values \<Longrightarrow> length (where_row row values) = length row"
  by (simp add: where_row_aligned)

lemma where_row_nth:
  "length row = length values \<Longrightarrow> j < length row \<Longrightarrow>
   where_row row values ! j = (if isnan (row ! j) then values ! j else row ! j)"
  by (simp add: where_row_aligned)

lemma where_row_no_nan:
  "length row = length values \<Longrightarrow> list_all (\<lambda>x. \<not> isnan x) row \<Longrightarrow>
   where_row row values = row"
proof -
  assume len: "length row = length values" and ok: "list_all (\<lambda>x. \<not> isnan x) row"
  show ?thesis
  proof (rule nth_equalityI)
    show "length (where_row row values) = length row"
      using len by (rule where_row_length)
  next
    fix j assume "j < length (where_row row values)"
    then have j: "j < length row" using len by (simp add: where_row_length)
    then have "\<not> isnan (row ! j)" using ok by (simp add: list_all_length)
    then show "where_row row values ! j = row ! j"
      using len j by (simp add: where_row_nth)
  qed
qed

lemma np_where_isnan_aligned:
  assumes "rectangular a (length values)" "a \<noteq> []"
  shows "np_where_isnan a values = Inr (map (\<lambda>row. where_row row values) a)"
proof -
  from assms obtain row rest where "a = row # rest" by (cases a) auto
  with assms(1) have "ncols a = length values" by (simp add: ncols_def rectangular_def)
  then show ?thesis by (simp add: np_where_isnan_def)
qed

lemma array_sum_empty: "\<not> isnan (array_sum [])"
  by (simp add: array_sum_def)

lemma numba_fillna_cases:
  assumes "rectangular a (length values)"
  shows "numba_fillna a values = Inr a \<or>
         numba_fillna a values = Inr (map (\<lambda>row. where_row row values) a)"
proof (cases "isnan (array_sum a)")
  case True
  then have "a \<noteq> []" using array_sum_empty by auto
  with assms True show ?thesis by (simp add: numba_fillna_def np_where_isnan_aligned)
next
  case False
  then show ?thesis by (simp add: numba_fillna_def)
qed

lemma rectangular_nth: "rectangular a m \<Longrightarrow> i < length a \<Longrightarrow> length (a ! i) = m"
  by (simp add: rectangular_def list_all_length)

text \<open>
  Claim C10.  \<open>numba_fillna\<close>, applied to a matrix and to one fill value per column of
  it, returns a matrix of the same shape in which every entry that is not NaN is the entry
  of the input; and when no entry of the input is NaN, it returns the input.  This holds
  on both paths of the function: the sum of the entries is NaN as soon as one entry is,
  but also when the matrix holds both infinities and no NaN, and then \<open>np.where\<close> runs
  and changes nothing.
\<close>

theorem numba_fillna_keeps_observed:
  assumes "rectangular a (length values)"
  shows "\<exists>r. numba_fillna a values = Inr r \<and> length r = length a \<and>
           (\<forall>i<length a. length (r ! i) = length (a ! i) \<and>
              (\<forall>j<length (a ! i). \<not> isnan (a ! i ! j) \<longrightarrow> r ! i ! j = a ! i ! j)) \<and>
           (list_all (list_all (\<lambda>x. \<not> isnan x)) a \<longrightarrow> r = a)"
proof -
  let ?w = "map (\<lambda>row. where_row row values) a"
  have len: "\<And>i. i < length a \<Longrightarrow> length (a ! i) = length values"
    using assms by (rule rectangular_nth)
  have w_ok: "\<forall>i<length a. length (?w ! i) = length (a ! i) \<and>
              (\<forall>j<length (a ! i). \<not> isnan (a ! i ! j) \<longrightarrow> ?w ! i ! j = a ! i ! j)"
    using len by (simp add: where_row_length where_row_nth)
  have w_id: "list_all (list_all (\<lambda>x. \<not> isnan x)) a \<longrightarrow> ?w = a"
  proof
    assume ok: "list_all (list_all (\<lambda>x. \<not> isnan x)) a"
    show "?w = a"
    proof (rule map_idI)
      fix row assume "row \<in> set a"
      then have "length row = length values" "list_all (\<lambda>x. \<not> isnan x) row"
        using assms ok by (auto simp: rectangular_def list_all_iff)
      then show "where_row row values = row" by (rule where_row_no_nan)
    qed
  qed
  from numba_fillna_cases [OF assms] show ?thesis
  proof
    assume "numba_fillna a values = Inr a"
    then show ?thesis by simp
  next
    assume "numba_fillna a values = Inr ?w"
    then show ?thesis using w_ok w_id by simp
  qed
qed

theorem numba_fillna_keeps_observed_witness:
  "rectangular example_array (length [Num 5, Num 7]) \<and>
   numba_fillna example_array [Num 5, Num 7] = Inr [[Num 1, Num 7], [PosInf, NegInf]] \<and>
   numba_fillna [[PosInf, Num 2], [Num 3, NegInf]] [Num 5, Num 7]
     = Inr [[PosInf, Num 2], [Num 3, NegInf]]"
  using numba_fillna_keeps_observed [of example_array "[Num 5, Num 7]"]
  by (simp add: example_array_def rectangular_def numba_fillna_def array_sum_def
      np_where_isnan_def ncols_def where_row_def)

section \<open>Unrecognised configuration strings\<close>

text \<open>
  Claim C6, as the code has it.  A penalty string other than \<open>'l1'\<close>, \<open>'l2'\<close> and
  \<open>'elasticnet'\<close> makes \<open>model_definition\<close> raise, and a policy other than
  \<open>'impute_by_mean'\<close>, \<open>'impute_by_median'\<close> and \<open>'zeros'\<close> makes
  \<open>feature_imputation_values\<close> raise (both by returning a local that was never bound).
  \<open>select_features\<close> does not raise on a method other than \<open>'wilcox'\<close> and
  \<open>'ttest'\<close>: its last branch applies no selection and returns every column.
\<close>

theorem unrecognized_configuration:
  "(p \<notin> {''l1'', ''l2'', ''elasticnet''} \<longrightarrow>
      model_definition (Some p) seed folds n_jobs Cs l1_ratios max_iter class_weight
        = Inl UnboundLocalError) \<and>
   (nan_policy \<notin> {''impute_by_mean'', ''impute_by_median'', ''zeros''} \<longrightarrow>
      feature_imputation_values df nan_policy = Inl UnboundLocalError) \<and>
   (sel_by \<notin> {''wilcox'', ''ttest''} \<longrightarrow>
      select_features ext df y sel_by thresh = Inr (df_columns df))"
  by (simp add: model_definition_def feature_imputation_values_def select_features_def Let_def)

theorem unrecognized_configuration_witness:
  "''ridge'' \<notin> {''l1'', ''l2'', ''elasticnet''} \<and>
   model_definition (Some ''ridge'') 42 5 (- 1) None None 1000 (Some ''balanced'')
     = Inl UnboundLocalError \<and>
   ''knn'' \<notin> {''impute_by_mean'', ''impute_by_median'', ''zeros''} \<and>
   feature_imputation_values example_df ''knn'' = Inl UnboundLocalError \<and>
   ''anova'' \<notin> {''wilcox'', ''ttest''} \<and>
   select_features example_sklearn example_df example_y ''anova'' (Num (5 / 100))
     = Inr (df_columns example_df)"
  using unrecognized_configuration [of "''ridge''" 42 5 "- 1" None None 1000 "Some ''balanced''"
      "''knn''" example_df "''anova''" example_sklearn example_y "Num (5 / 100)"]
  by simp

text \<open>The claim as stated fails for the feature-selection method: an unknown method is
  not reported as an error, the features are all kept.\<close>

theorem unrecognized_method_counterexample:
  "select_features example_sklearn example_df example_y ''anova'' (Num (5 / 100))
     = Inr [''cg0'', ''cg1'']"
  by (simp add: select_features_def example_df_def)

section \<open>The grids of the model definition\<close>

lemma logspace_length: "length (logspace (- 4) 6 10) = 10"
  by (simp add: logspace_def)

lemma logspace_first: "hd (logspace (- 4) 6 10) = 1 / 10000"
  by (simp add: logspace_def upt_conv_Cons powr_minus)

lemma logspace_last: "last (logspace (- 4) 6 10) = 1000000"
proof -
  have "[0..<10] = [0..<9] @ [9::nat]"
    using upt_Suc_append [of 0 9] by simp
  then have "last (logspace (- 4) 6 10) = 10 powr 6"
    by (simp add: logspace_def)
  also have "(10::real) powr 6 = 10 ^ 6"
    using powr_realpow [of "10::real" 6] by simp
  finally show ?thesis by simp
qed

text \<open>
  Claim C3, as the code has it, for the call that training makes (\<open>Cs=None\<close>,
  \<open>l1_ratios=None\<close>).  With \<open>'l1'\<close> the regularisation strengths are the grid
  \<open>np.logspace(-4, 6, num=10)\<close>: ten values, the first \<open>1e-4\<close> and the last \<open>1e6\<close>.
  With \<open>'l2'\<close> the argument is the number 10, not that grid: the choice of the ten
  values is left to the library.  With \<open>'elasticnet'\<close> the mixing ratios are
  0.1, 0.5 and 0.9, and the strengths are again the library's default.
\<close>

theorem penalty_grids:
  "(\<exists>params. model_definition (Some ''l1'') seed folds n_jobs None None max_iter class_weight
        = Inr params \<and> lr_Cs params = Cs_grid (logspace (- 4) 6 10)) \<and>
   length (logspace (- 4) 6 10) = 10 \<and>
   hd (logspace (- 4) 6 10) = 1 / 10000 \<and>
   last (logspace (- 4) 6 10) = 1000000 \<and>
   (\<exists>params. model_definition (Some ''l2'') seed folds n_jobs None None max_iter class_weight
        = Inr params \<and> lr_Cs params = Cs_count 10) \<and>
   (\<exists>params. model_definition (Some ''elasticnet'') seed folds n_jobs None None max_iter
          class_weight
        = Inr params \<and> lr_l1_ratios params = Some [0.1, 0.5, 0.9] \<and>
          lr_Cs params = Cs_count 10)"
  using logspace_length logspace_first logspace_last by (simp add: model_definition_def)

text \<open>The claim as stated fails for \<open>'l2'\<close>: the model is not given the grid from
  \<open>1e-4\<close> to \<open>1e6\<close>.\<close>

theorem l2_grid_counterexample:
  "\<not> (\<exists>params. model_definition (Some ''l2'') 42 5 (- 1) None None 1000 (Some ''balanced'')
          = Inr params \<and> lr_Cs params = Cs_grid (logspace (- 4) 6 10))"
  by (simp add: model_definition_def)

section \<open>Target assignment\<close>

lemma unique_set: "set (unique xs) = set xs"
  by (simp add: unique_def)

text \<open>
  Claim C4, as the code has it, for a dataset whose targets have not been set before.
  When both \<open>'case'\<close> and \<open>'control'\<close> occur among the group labels of the samples,
  the assignment succeeds, and the target of a sample is 0 when its group label is
  \<open>'control'\<close>, 1 when it has any other group label, and missing when it has no group
  label (the group table does not list it, or its entry is empty).  So a target is
  defined only for samples that are in the matrix and in the group table.  When
  \<open>'case'\<close> and \<open>'control'\<close> do not both occur, no target is set and the method raises
  AttributeError on reading \<open>self.y\<close>.
\<close>

theorem target_assignment:
  assumes "ds_y ds = None"
  shows "(Some ''case'' \<in> set (orig_labels_of ds) \<and> Some ''control'' \<in> set (orig_labels_of ds) \<longrightarrow>
           (\<exists>ds' y. add_target_lables ds = Inr ds' \<and> ds_y ds' = Some y \<and>
              length y = length (df_index (ds_df ds)) \<and>
              (\<forall>i<length y. y ! i =
                 (case map_of (ds_groups ds) (df_index (ds_df ds) ! i) of
                    Some (Some l) \<Rightarrow> Some (if l = ''control'' then 0 else 1)
                  | _ \<Rightarrow> None)))) \<and>
         (\<not> (Some ''case'' \<in> set (orig_labels_of ds) \<and> Some ''control'' \<in> set (orig_labels_of ds)) \<longrightarrow>
           add_target_lables ds = Inl AttributeError)"
proof (intro conjI impI)
  assume both: "Some ''case'' \<in> set (orig_labels_of ds) \<and> Some ''control'' \<in> set (orig_labels_of ds)"
  let ?t = "\<lambda>l. case l of None \<Rightarrow> None | Some x \<Rightarrow> Some (if x = ''control'' then 0 else (1::int))"
  let ?y = "map ?t (orig_labels_of ds)"
  have "?t (Some ''control'') \<in> ?t ` set (orig_labels_of ds)" using both by (intro imageI) simp
  then have zero: "Some 0 \<in> set ?y" by simp
  have "?t (Some ''case'') \<in> ?t ` set (orig_labels_of ds)" using both by (intro imageI) simp
  then have one: "Some 1 \<in> set ?y" by simp
  have res: "add_target_lables ds = Inr (ds\<lparr>ds_orig_label_names := Some (unique (orig_labels_of ds)), ds_y := Some ?y\<rparr>)"
    using both zero one by (simp add: add_target_lables_def Let_def unique_set)
  have nth: "\<forall>i<length ?y. ?y ! i =
                 (case map_of (ds_groups ds) (df_index (ds_df ds) ! i) of
                    Some (Some l) \<Rightarrow> Some (if l = ''control'' then 0 else 1)
                  | _ \<Rightarrow> None)"
    by (auto simp: orig_labels_of_def split: option.splits)
  have len: "length ?y = length (df_index (ds_df ds))" by (simp add: orig_labels_of_def)
  show "\<exists>ds' y. add_target_lables ds = Inr ds' \<and> ds_y ds' = Some y \<and>
              length y = length (df_index (ds_df ds)) \<and>
              (\<forall>i<length y. y ! i =
                 (case map_of (ds_groups ds) (df_index (ds_df ds) ! i) of
                    Some (Some l) \<Rightarrow> Some (if l = ''control'' then 0 else 1)
                  | _ \<Rightarrow> None))"
    using res nth len by (intro exI [of _ "ds\<lparr>ds_orig_label_names := Some (unique (orig_labels_of ds)), ds_y := Some ?y\<rparr>"] exI [of _ ?y]) simp
next
  assume "\<not> (Some ''case'' \<in> set (orig_labels_of ds) \<and> Some ''control'' \<in> set (orig_labels_of ds))"
  then show "add_target_lables ds = Inl AttributeError"
    using assms by (auto simp add: add_target_lables_def Let_def unique_set)
qed

text \<open>The claim as stated fails for a group label outside \<open>case\<close>/\<open>control\<close>:
  the third sample, labelled \<open>'unknown'\<close>, has the target 1, not a missing target.\<close>

theorem unknown_label_counterexample:
  "map_sum id ds_y (add_target_lables example_labelled) = Inr (Some [Some 1, Some 0, Some 1, None])"
  by (simp add: add_target_lables_def example_labelled_def orig_labels_of_def unique_def Let_def)

theorem target_assignment_witness:
  "ds_y example_labelled = None \<and>
   Some ''case'' \<in> set (orig_labels_of example_labelled) \<and>
   Some ''control'' \<in> set (orig_labels_of example_labelled) \<and>
   map_sum id ds_y (add_target_lables example_labelled) = Inr (Some [Some 1, Some 0, Some 1, None]) \<and>
   add_target_lables (example_labelled\<lparr>ds_groups := [(''s0'', Some ''case'')]\<rparr>) = Inl AttributeError"
  using target_assignment [of example_labelled]
    target_assignment [of "example_labelled\<lparr>ds_groups := [(''s0'', Some ''case'')]\<rparr>"]
  by (simp add: add_target_lables_def example_labelled_def orig_labels_of_def unique_def Let_def)

section \<open>What select\_features returns\<close>

lemma np_where_Cons:
  "np_where (f # fs) = (if f then [0] else []) @ map Suc (np_where fs)"
proof -
  have "[0..<Suc (length fs)] = 0 # map Suc [0..<length fs]"
    by (simp add: upt_conv_Cons map_Suc_upt del: upt_Suc)
  then show ?thesis
    by (simp add: np_where_def filter_map comp_def del: upt_Suc)
qed

lemma np_where_length: "length (np_where flags) = length (filter (\<lambda>b. b) flags)"
  by (induction flags) (simp_all add: np_where_Cons, simp add: np_where_def)

lemma compress_nonzero:
  assumes "(0::nat) \<notin> set selectors"
  shows "compress data selectors = take (length selectors) data"
proof -
  have "filter (\<lambda>(d, s). s \<noteq> 0) (zip data selectors) = zip data selectors"
  proof (rule filter_True, clarify)
    fix d s assume "(d, s) \<in> set (zip data selectors)"
    then have "s \<in> set selectors" by (rule set_zip_rightD)
    with assms show "0 < s" by (cases "s = 0") simp_all
  qed
  moreover have "take (min (length data) (length selectors)) data = take (length selectors) data"
    by (cases "length data \<le> length selectors") (simp_all add: min_def)
  ultimately show ?thesis
    by (simp add: compress_def map_fst_zip_take)
qed

lemma compress_np_where:
  "compress data (np_where flags) =
     (let k = length (filter (\<lambda>b. b) flags)
      in if flags \<noteq> [] \<and> hd flags then tl (take k data) else take k data)"
proof (cases flags)
  case Nil
  then show ?thesis by (simp add: np_where_def compress_def)
next
  case (Cons f fs)
  have nz: "0 \<notin> set (map Suc (np_where fs))" by auto
  show ?thesis
  proof (cases f)
    case False
    then show ?thesis
      using Cons compress_nonzero [OF nz, of data] 
      by (simp add: np_where_Cons np_where_length)
  next
    case True
    show ?thesis
    proof (cases data)
      case Nil
      then show ?thesis by (simp add: compress_def Let_def)
    next
      case (Cons d ds)
      have "compress (d # ds) (0 # map Suc (np_where fs)) = compress ds (map Suc (np_where fs))"
        by (simp add: compress_def)
      then show ?thesis
        using True \<open>flags = f # fs\<close> Cons compress_nonzero [OF nz, of ds]
        by (simp add: np_where_Cons np_where_length)
    qed
  qed
qed


text \<open>
  Claim C2 does not hold of the code.  \<open>select_features\<close> hands the positions of the
  passing features, \<open>np.where(p_vals<pval_thresh)[0]\<close>, to \<open>itertools.compress\<close> as its
  selectors, and \<open>compress\<close> reads them as truth values, position by position.  With
  \<open>k\<close> features passing, the result is the first \<open>k\<close> columns of the frame, without
  the first of them when the first feature passes; which features passed plays no other
  part.
\<close>

theorem select_features_returns_prefix:
  assumes "sel_by = ''wilcox'' \<or> sel_by = ''ttest''"
    and "group_rows df y 0 = Inr g0" and "group_rows df y 1 = Inr g1"
    and "(if sel_by = ''wilcox'' then mannwhitneyu ext else ttest_ind ext)
           (df_values g0) (df_values g1) = Inr p_vals"
  shows "select_features ext df y sel_by pval_thresh =
           Inr (let passing = map (\<lambda>p. fless p pval_thresh) p_vals;
                    k = length (filter (\<lambda>b. b) passing)
                in if passing \<noteq> [] \<and> hd passing then tl (take k (df_columns df))
                   else take k (df_columns df))"
  using assms by (auto simp add: select_features_def ebind_def compress_np_where)

text \<open>On the example frame the second feature separates the two groups and the first
  does not (the exact two-sided Mann-Whitney p-values are \<open>24/35\<close> and \<open>1/35\<close>); at
  the threshold 0.05 the function returns the first feature.\<close>

theorem select_features_returns_prefix_witness:
  "group_rows example_df example_y 0 = Inr (example_df
       \<lparr>df_index := [''s0'', ''s2'', ''s4'', ''s6''],
        df_values := [[Num (1 / 10), Num (1 / 10)], [Num (1 / 5), Num (1 / 5)],
                      [Num (3 / 10), Num (3 / 10)], [Num (2 / 5), Num (2 / 5)]]\<rparr>) \<and>
   group_rows example_df example_y 1 = Inr (example_df
       \<lparr>df_index := [''s1'', ''s3'', ''s5'', ''s7''],
        df_values := [[Num (3 / 20), Num (3 / 5)], [Num (1 / 4), Num (7 / 10)],
                      [Num (7 / 20), Num (4 / 5)], [Num (9 / 20), Num (9 / 10)]]\<rparr>) \<and>
   mannwhitneyu example_sklearn
       [[Num (1 / 10), Num (1 / 10)], [Num (1 / 5), Num (1 / 5)],
        [Num (3 / 10), Num (3 / 10)], [Num (2 / 5), Num (2 / 5)]]
       [[Num (3 / 20), Num (3 / 5)], [Num (1 / 4), Num (7 / 10)],
        [Num (7 / 20), Num (4 / 5)], [Num (9 / 20), Num (9 / 10)]]
     = Inr [Num (24 / 35), Num (1 / 35)] \<and>
   select_features example_sklearn example_df example_y ''wilcox'' (Num (5 / 100))
     = Inr [''cg0'']"
proof -
  have g0: "group_rows example_df example_y 0 = Inr (example_df
       \<lparr>df_index := [''s0'', ''s2'', ''s4'', ''s6''],
        df_values := [[Num (1 / 10), Num (1 / 10)], [Num (1 / 5), Num (1 / 5)],
                      [Num (3 / 10), Num (3 / 10)], [Num (2 / 5), Num (2 / 5)]]\<rparr>)"
    by (simp add: group_rows_def example_df_def example_y_def np_where_def iloc_def)
  have g1: "group_rows example_df example_y 1 = Inr (example_df
       \<lparr>df_index := [''s1'', ''s3'', ''s5'', ''s7''],
        df_values := [[Num (3 / 20), Num (3 / 5)], [Num (1 / 4), Num (7 / 10)],
                      [Num (7 / 20), Num (4 / 5)], [Num (9 / 20), Num (9 / 10)]]\<rparr>)"
    by (simp add: group_rows_def example_df_def example_y_def np_where_def iloc_def)
  have mw: "(if ''wilcox'' = ''wilcox'' then mannwhitneyu example_sklearn else ttest_ind example_sklearn)
       (df_values (example_df
       \<lparr>df_index := [''s0'', ''s2'', ''s4'', ''s6''],
        df_values := [[Num (1 / 10), Num (1 / 10)], [Num (1 / 5), Num (1 / 5)],
                      [Num (3 / 10), Num (3 / 10)], [Num (2 / 5), Num (2 / 5)]]\<rparr>))
       (df_values (example_df
       \<lparr>df_index := [''s1'', ''s3'', ''s5'', ''s7''],
        df_values := [[Num (3 / 20), Num (3 / 5)], [Num (1 / 4), Num (7 / 10)],
                      [Num (7 / 20), Num (4 / 5)], [Num (9 / 20), Num (9 / 10)]]\<rparr>))
     = Inr [Num (24 / 35), Num (1 / 35)]"
    by (simp add: example_sklearn_def)
  have "select_features example_sklearn example_df example_y ''wilcox'' (Num (5 / 100))
     = Inr [''cg0'']"
    using select_features_returns_prefix [OF _ g0 g1 mw, of "Num (5 / 100)"]
    by (simp add: example_df_def)
  then show ?thesis using g0 g1 by (simp add: example_sklearn_def)
qed

section \<open>A fold before feature selection\<close>

lemma ebind_Inr: "ebind (Inr x) f = f x"
  by (simp add: ebind_def)

lemma ebind_Inl: "ebind (Inl e) f = Inl e"
  by (simp add: ebind_def)

lemma take_rows_ok:
  "\<forall>i\<in>set positions. i < length xs \<Longrightarrow>
   take_rows xs positions = Inr (map (\<lambda>i. xs ! i) positions)"
  by (simp add: take_rows_def list_all_iff)

lemma iloc_ok:
  "\<forall>i\<in>set positions. i < length (df_values df) \<Longrightarrow>
   iloc df positions =
     Inr (df\<lparr>df_index := map (\<lambda>i. df_index df ! i) positions,
             df_values := map (\<lambda>i. df_values df ! i) positions\<rparr>)"
  by (simp add: iloc_def list_all_iff)

lemma filter_eq_upt: "filter (\<lambda>k. k = j) [0..<n] = (if j < n then [j] else [])"
  by (induction n) auto

lemma positions_of_distinct:
  assumes "distinct cols" "j < length cols"
  shows "positions_of cols (cols ! j) = [j]"
proof -
  have "filter (\<lambda>k. cols ! k = cols ! j) [0..<length cols] = filter (\<lambda>k. k = j) [0..<length cols]"
    using assms by (intro filter_cong) (auto simp: nth_eq_iff_index_eq)
  then show ?thesis using assms by (simp add: positions_of_def filter_eq_upt)
qed

lemma concat_positions_of:
  assumes "distinct cols" "\<forall>j\<in>set keep. j < length cols"
  shows "concat (map (positions_of cols) (map (\<lambda>j. cols ! j) keep)) = keep"
  using assms(2)
proof (induction keep)
  case Nil
  then show ?case by simp
next
  case (Cons j keep)
  then show ?case using assms(1) by (simp add: positions_of_distinct)
qed

lemma loc_columns_distinct:
  assumes "distinct (df_columns df)" "\<forall>j\<in>set keep. j < length (df_columns df)"
  shows "loc_columns df (map (\<lambda>j. df_columns df ! j) keep) = Inr (select_columns df keep)"
proof -
  have "list_all (\<lambda>n. n \<in> set (df_columns df)) (map (\<lambda>j. df_columns df ! j) keep)"
    using assms(2) by (simp add: list_all_iff)
  moreover have "concat (map (positions_of (df_columns df)) (map (\<lambda>j. df_columns df ! j) keep)) = keep"
    using assms by (rule concat_positions_of)
  ultimately show ?thesis
    unfolding loc_columns_def by (simp only: if_True)
qed

text \<open>The positions of the columns without a NaN in the rows at the train positions.\<close>

lemma dropna_any_iloc:
  "dropna_any (df\<lparr>df_index := idx, df_values := map (\<lambda>i. df_values df ! i) train_index\<rparr>) =
   select_columns (df\<lparr>df_index := idx, df_values := map (\<lambda>i. df_values df ! i) train_index\<rparr>)
     (filter (\<lambda>j. \<forall>i\<in>set train_index. \<not> isnan (df_values df ! i ! j))
        [0..<length (df_columns df)])"
  by (simp add: dropna_any_def column_def list_all_iff comp_def)

lemma rectangular_select_columns:
  "rectangular (df_values (select_columns df keep)) (length keep)"
  by (simp add: rectangular_def select_columns_def list_all_iff)

lemma feature_imputation_values_ok:
  assumes "policy \<in> {''impute_by_mean'', ''impute_by_median'', ''zeros''}"
  shows "\<exists>v. feature_imputation_values df policy = Inr v \<and> length v = length (df_columns df)"
  using assms by (auto simp: feature_imputation_values_def)

lemma numba_fillna_ok:
  assumes "rectangular a (length values)"
  shows "\<exists>r. numba_fillna a values = Inr r \<and> length r = length a \<and>
              rectangular r (length values)"
proof -
  have "rectangular (map (\<lambda>row. where_row row values) a) (length values)"
    using assms by (simp add: rectangular_def list_all_iff where_row_length)
  then show ?thesis
    using numba_fillna_cases [OF assms] assms by auto
qed


lemma fold_split_ok:
  assumes "ds_y ds = Some y"
    and "\<forall>i\<in>set train_index \<union> set test_index. i < length (df_values (ds_df ds)) \<and> i < length y"
  shows "fold_split ds train_index test_index =
           Inr ((ds_df ds)\<lparr>df_index := map (\<lambda>i. df_index (ds_df ds) ! i) train_index,
                            df_values := map (\<lambda>i. df_values (ds_df ds) ! i) train_index\<rparr>,
                (ds_df ds)\<lparr>df_index := map (\<lambda>i. df_index (ds_df ds) ! i) test_index,
                            df_values := map (\<lambda>i. df_values (ds_df ds) ! i) test_index\<rparr>,
                map (\<lambda>i. y ! i) train_index, map (\<lambda>i. y ! i) test_index)"
proof -
  have "iloc (ds_df ds) train_index =
          Inr ((ds_df ds)\<lparr>df_index := map (\<lambda>i. df_index (ds_df ds) ! i) train_index,
                           df_values := map (\<lambda>i. df_values (ds_df ds) ! i) train_index\<rparr>)"
    using assms(2) by (intro iloc_ok) simp
  moreover have "iloc (ds_df ds) test_index =
          Inr ((ds_df ds)\<lparr>df_index := map (\<lambda>i. df_index (ds_df ds) ! i) test_index,
                           df_values := map (\<lambda>i. df_values (ds_df ds) ! i) test_index\<rparr>)"
    using assms(2) by (intro iloc_ok) simp
  moreover have "take_rows y train_index = Inr (map (\<lambda>i. y ! i) train_index)"
    using assms(2) by (intro take_rows_ok) simp
  moreover have "take_rows y test_index = Inr (map (\<lambda>i. y ! i) test_index)"
    using assms(2) by (intro take_rows_ok) simp
  ultimately show ?thesis
    using assms(1) by (simp add: fold_split_def ebind_Inr)
qed

lemma fold_dropna_ok:
  fixes df :: dataframe and train_index :: "nat list"
  defines "keep \<equiv> filter (\<lambda>j. \<forall>i\<in>set train_index. \<not> isnan (df_values df ! i ! j))
                      [0..<length (df_columns df)]"
  assumes "distinct (df_columns df)"
  shows "fold_dropna (df\<lparr>df_index := idx, df_values := map (\<lambda>i. df_values df ! i) train_index\<rparr>)
                     (df\<lparr>df_index := idx', df_values := a'\<rparr>) =
           Inr (select_columns
                  (df\<lparr>df_index := idx, df_values := map (\<lambda>i. df_values df ! i) train_index\<rparr>) keep,
                select_columns (df\<lparr>df_index := idx', df_values := a'\<rparr>) keep)"
proof -
  let ?tr = "df\<lparr>df_index := idx, df_values := map (\<lambda>i. df_values df ! i) train_index\<rparr>"
  let ?te = "df\<lparr>df_index := idx', df_values := a'\<rparr>"
  have d: "dropna_any ?tr = select_columns ?tr keep"
    unfolding keep_def by (rule dropna_any_iloc)
  have cols: "df_columns (select_columns ?tr keep) = map (\<lambda>j. df_columns ?te ! j) keep"
    by (simp add: select_columns_def)
  have "loc_columns ?te (map (\<lambda>j. df_columns ?te ! j) keep) = Inr (select_columns ?te keep)"
    using assms(2) by (intro loc_columns_distinct) (simp_all add: keep_def)
  then show ?thesis
    unfolding fold_dropna_def Let_def d cols by (simp add: ebind_Inr)
qed

lemma fold_impute_ok:
  assumes "policy \<in> {''impute_by_mean'', ''impute_by_median'', ''zeros''}"
    and "length (df_index df_train) = length (df_values df_train)"
    and "length (df_index df_test) = length (df_values df_test)"
  shows "\<exists>v a_train a_test.
           feature_imputation_values (select_columns df_train keep) policy = Inr v \<and>
           numba_fillna (df_values (select_columns df_train keep)) v = Inr a_train \<and>
           numba_fillna (df_values (select_columns df_test keep)) v = Inr a_test \<and>
           fold_impute (Some policy) (select_columns df_train keep) (select_columns df_test keep) =
             Inr (Some v, (select_columns df_train keep)\<lparr>df_values := a_train\<rparr>,
                  (select_columns df_test keep)\<lparr>df_values := a_test\<rparr>)"
proof -
  let ?tr = "select_columns df_train keep" and ?te = "select_columns df_test keep"
  from feature_imputation_values_ok [OF assms(1), of ?tr]
  obtain v where v: "feature_imputation_values ?tr policy = Inr v"
    and lv: "length v = length keep"
    by (auto simp: select_columns_def)
  have "rectangular (df_values ?tr) (length v)"
    unfolding lv by (rule rectangular_select_columns)
  from numba_fillna_ok [OF this]
  obtain a_train where a1: "numba_fillna (df_values ?tr) v = Inr a_train"
    and l1: "length a_train = length (df_values ?tr)" and r1: "rectangular a_train (length v)"
    by blast
  have "rectangular (df_values ?te) (length v)"
    unfolding lv by (rule rectangular_select_columns)
  from numba_fillna_ok [OF this]
  obtain a_test where a2: "numba_fillna (df_values ?te) v = Inr a_test"
    and l2: "length a_test = length (df_values ?te)" and r2: "rectangular a_test (length v)"
    by blast
  have m1: "make_dataframe a_train (df_index ?tr) (df_columns ?tr) = Inr (?tr\<lparr>df_values := a_train\<rparr>)"
    using l1 r1 lv assms(2) by (simp add: make_dataframe_def select_columns_def)
  have m2: "make_dataframe a_test (df_index ?te) (df_columns ?te) = Inr (?te\<lparr>df_values := a_test\<rparr>)"
    using l2 r2 lv assms(3) by (simp add: make_dataframe_def select_columns_def)
  have "fold_impute (Some policy) ?tr ?te =
          Inr (Some v, ?tr\<lparr>df_values := a_train\<rparr>, ?te\<lparr>df_values := a_test\<rparr>)"
    by (simp add: fold_impute_def v a1 a2 m1 m2 ebind_Inr)
  with v a1 a2 show ?thesis by blast
qed


lemma numba_fillna_no_nan:
  assumes "rectangular a (length values)" "list_all (list_all (\<lambda>x. \<not> isnan x)) a"
  shows "numba_fillna a values = Inr a"
proof -
  have "map (\<lambda>row. where_row row values) a = a"
  proof (rule map_idI)
    fix row assume "row \<in> set a"
    then have "length row = length values" "list_all (\<lambda>x. \<not> isnan x) row"
      using assms by (auto simp: rectangular_def list_all_iff)
    then show "where_row row values = row" by (rule where_row_no_nan)
  qed
  then show ?thesis using numba_fillna_cases [OF assms(1)] by auto
qed

lemma fold_preprocess_ok:
  fixes ds :: dataset and train_index test_index :: "nat list"
  defines "df \<equiv> ds_df ds"
  defines "keep \<equiv> filter (\<lambda>j. \<forall>i\<in>set train_index. \<not> isnan (df_values df ! i ! j))
                      [0..<length (df_columns df)]"
  defines "T \<equiv> df\<lparr>df_index := map (\<lambda>i. df_index df ! i) train_index,
                     df_values := map (\<lambda>i. df_values df ! i) train_index\<rparr>"
  defines "E \<equiv> df\<lparr>df_index := map (\<lambda>i. df_index df ! i) test_index,
                     df_values := map (\<lambda>i. df_values df ! i) test_index\<rparr>"
  assumes dist: "distinct (df_columns df)"
    and y: "ds_y ds = Some y"
    and range: "\<forall>i\<in>set train_index \<union> set test_index. i < length (df_values df) \<and> i < length y"
  shows "iloc df train_index = Inr T"
    and "iloc df test_index = Inr E"
    and "dropna_any T = select_columns T keep"
    and "loc_columns E (df_columns (dropna_any T)) = Inr (select_columns E keep)"
    and "fold_preprocess ds None train_index test_index =
           Inr (None, select_columns T keep, select_columns E keep,
                map (\<lambda>i. y ! i) train_index, map (\<lambda>i. y ! i) test_index)"
    and "policy \<in> {''impute_by_mean'', ''impute_by_median'', ''zeros''} \<Longrightarrow>
         \<exists>v a_train a_test.
           feature_imputation_values (select_columns T keep) policy = Inr v \<and>
           numba_fillna (df_values (select_columns T keep)) v = Inr a_train \<and>
           numba_fillna (df_values (select_columns E keep)) v = Inr a_test \<and>
           fold_preprocess ds (Some policy) train_index test_index =
             Inr (Some v, (select_columns T keep)\<lparr>df_values := a_train\<rparr>,
                  (select_columns E keep)\<lparr>df_values := a_test\<rparr>,
                  map (\<lambda>i. y ! i) train_index, map (\<lambda>i. y ! i) test_index)"
proof -
  show iT: "iloc df train_index = Inr T"
    unfolding T_def using range by (intro iloc_ok) simp
  show iE: "iloc df test_index = Inr E"
    unfolding E_def using range by (intro iloc_ok) simp
  show dT: "dropna_any T = select_columns T keep"
    unfolding T_def keep_def by (rule dropna_any_iloc)
  have split: "fold_split ds train_index test_index =
                 Inr (T, E, map (\<lambda>i. y ! i) train_index, map (\<lambda>i. y ! i) test_index)"
    unfolding T_def E_def df_def using y range [unfolded df_def] by (rule fold_split_ok)
  have drop: "fold_dropna T E = Inr (select_columns T keep, select_columns E keep)"
    unfolding T_def E_def keep_def using dist by (rule fold_dropna_ok)
  have loc: "loc_columns E (map (\<lambda>j. df_columns E ! j) keep) = Inr (select_columns E keep)"
    using dist by (intro loc_columns_distinct) (simp_all add: keep_def E_def)
  have "df_columns (select_columns T keep) = map (\<lambda>j. df_columns E ! j) keep"
    by (simp add: select_columns_def T_def E_def)
  then show "loc_columns E (df_columns (dropna_any T)) = Inr (select_columns E keep)"
    unfolding dT using loc by (simp only:)
  show "fold_preprocess ds None train_index test_index =
           Inr (None, select_columns T keep, select_columns E keep,
                map (\<lambda>i. y ! i) train_index, map (\<lambda>i. y ! i) test_index)"
    by (simp add: fold_preprocess_def split drop fold_impute_def ebind_Inr)
  show "\<exists>v a_train a_test.
           feature_imputation_values (select_columns T keep) policy = Inr v \<and>
           numba_fillna (df_values (select_columns T keep)) v = Inr a_train \<and>
           numba_fillna (df_values (select_columns E keep)) v = Inr a_test \<and>
           fold_preprocess ds (Some policy) train_index test_index =
             Inr (Some v, (select_columns T keep)\<lparr>df_values := a_train\<rparr>,
                  (select_columns E keep)\<lparr>df_values := a_test\<rparr>,
                  map (\<lambda>i. y ! i) train_index, map (\<lambda>i. y ! i) test_index)"
    if pol: "policy \<in> {''impute_by_mean'', ''impute_by_median'', ''zeros''}"
  proof -
    have "length (df_index T) = length (df_values T)" "length (df_index E) = length (df_values E)"
      by (simp_all add: T_def E_def)
    from fold_impute_ok [OF pol this, of keep]
    obtain v a_train a_test where
      "feature_imputation_values (select_columns T keep) policy = Inr v"
      "numba_fillna (df_values (select_columns T keep)) v = Inr a_train"
      "numba_fillna (df_values (select_columns E keep)) v = Inr a_test"
      "fold_impute (Some policy) (select_columns T keep) (select_columns E keep) =
         Inr (Some v, (select_columns T keep)\<lparr>df_values := a_train\<rparr>,
              (select_columns E keep)\<lparr>df_values := a_test\<rparr>)"
      by blast
    then show ?thesis
      by (simp add: fold_preprocess_def split drop ebind_Inr)
  qed
qed


lemma fold_preprocess_imputed:
  assumes "distinct (df_columns (ds_df ds))"
    and "ds_y ds = Some y"
    and "\<forall>i\<in>set train_index \<union> set test_index. i < length (df_values (ds_df ds)) \<and> i < length y"
    and "policy \<in> {''impute_by_mean'', ''impute_by_median'', ''zeros''}"
  shows "\<exists>T E E0 v a_train a_test.
           iloc (ds_df ds) train_index = Inr T \<and>
           iloc (ds_df ds) test_index = Inr E \<and>
           loc_columns E (df_columns (dropna_any T)) = Inr E0 \<and>
           feature_imputation_values (dropna_any T) policy = Inr v \<and>
           numba_fillna (df_values (dropna_any T)) v = Inr a_train \<and>
           numba_fillna (df_values E0) v = Inr a_test \<and>
           fold_preprocess ds (Some policy) train_index test_index =
             Inr (Some v, (dropna_any T)\<lparr>df_values := a_train\<rparr>, E0\<lparr>df_values := a_test\<rparr>,
                  map (\<lambda>i. y ! i) train_index, map (\<lambda>i. y ! i) test_index)"
proof -
  note A = fold_preprocess_ok [OF assms(1-3)]
  from A(6) [OF assms(4)] show ?thesis
    unfolding A(3) [symmetric] using A(1) A(2) A(4) by blast
qed

text \<open>
  Claim C1.  Take two folds, of the same dataset or of two datasets, under the same policy
  \<open>mean\<close>, \<open>median\<close> or \<open>zeros\<close>, whose training partitions are the same frame and
  whose test partitions are arbitrary.  Both folds succeed, and their fill values are the
  same: the values that \<open>feature_imputation_values\<close> computes from the training
  partition, after its columns with a missing value were dropped.  In each fold
  \<open>numba_fillna\<close> applies these values to the train matrix and to the test matrix.
\<close>

theorem fold_fill_values_from_train_only:
  assumes "policy \<in> {''impute_by_mean'', ''impute_by_median'', ''zeros''}"
    and "distinct (df_columns (ds_df ds))"
    and "ds_y ds = Some y"
    and "\<forall>i\<in>set train_index \<union> set test_index. i < length (df_values (ds_df ds)) \<and> i < length y"
    and "distinct (df_columns (ds_df ds'))"
    and "ds_y ds' = Some y'"
    and "\<forall>i\<in>set train_index' \<union> set test_index'.
           i < length (df_values (ds_df ds')) \<and> i < length y'"
    and "iloc (ds_df ds) train_index = iloc (ds_df ds') train_index'"
  shows "\<exists>T v. iloc (ds_df ds) train_index = Inr T \<and>
           feature_imputation_values (dropna_any T) policy = Inr v \<and>
           (\<exists>E E0 df_train df_test y_train y_test.
              fold_preprocess ds (Some policy) train_index test_index =
                Inr (Some v, df_train, df_test, y_train, y_test) \<and>
              numba_fillna (df_values (dropna_any T)) v = Inr (df_values df_train) \<and>
              iloc (ds_df ds) test_index = Inr E \<and>
              loc_columns E (df_columns (dropna_any T)) = Inr E0 \<and>
              numba_fillna (df_values E0) v = Inr (df_values df_test)) \<and>
           (\<exists>E E0 df_train df_test y_train y_test.
              fold_preprocess ds' (Some policy) train_index' test_index' =
                Inr (Some v, df_train, df_test, y_train, y_test) \<and>
              numba_fillna (df_values (dropna_any T)) v = Inr (df_values df_train) \<and>
              iloc (ds_df ds') test_index' = Inr E \<and>
              loc_columns E (df_columns (dropna_any T)) = Inr E0 \<and>
              numba_fillna (df_values E0) v = Inr (df_values df_test))"
proof -
  from fold_preprocess_imputed [OF assms(2,3,4,1)]
  obtain T E E0 v a_train a_test where run:
    "iloc (ds_df ds) train_index = Inr T"
    "iloc (ds_df ds) test_index = Inr E"
    "loc_columns E (df_columns (dropna_any T)) = Inr E0"
    "feature_imputation_values (dropna_any T) policy = Inr v"
    "numba_fillna (df_values (dropna_any T)) v = Inr a_train"
    "numba_fillna (df_values E0) v = Inr a_test"
    "fold_preprocess ds (Some policy) train_index test_index =
       Inr (Some v, (dropna_any T)\<lparr>df_values := a_train\<rparr>, E0\<lparr>df_values := a_test\<rparr>,
            map (\<lambda>i. y ! i) train_index, map (\<lambda>i. y ! i) test_index)"
    by blast
  from fold_preprocess_imputed [OF assms(5,6,7,1)]
  obtain T' E' E0' v' a_train' a_test' where run':
    "iloc (ds_df ds') train_index' = Inr T'"
    "iloc (ds_df ds') test_index' = Inr E'"
    "loc_columns E' (df_columns (dropna_any T')) = Inr E0'"
    "feature_imputation_values (dropna_any T') policy = Inr v'"
    "numba_fillna (df_values (dropna_any T')) v' = Inr a_train'"
    "numba_fillna (df_values E0') v' = Inr a_test'"
    "fold_preprocess ds' (Some policy) train_index' test_index' =
       Inr (Some v', (dropna_any T')\<lparr>df_values := a_train'\<rparr>, E0'\<lparr>df_values := a_test'\<rparr>,
            map (\<lambda>i. y' ! i) train_index', map (\<lambda>i. y' ! i) test_index')"
    by blast
  have same_T: "T' = T" using run(1) run'(1) assms(8) by simp
  have same_v: "v' = v" using run(4) run'(4) same_T by simp
  have first: "\<exists>E E0 df_train df_test y_train y_test.
              fold_preprocess ds (Some policy) train_index test_index =
                Inr (Some v, df_train, df_test, y_train, y_test) \<and>
              numba_fillna (df_values (dropna_any T)) v = Inr (df_values df_train) \<and>
              iloc (ds_df ds) test_index = Inr E \<and>
              loc_columns E (df_columns (dropna_any T)) = Inr E0 \<and>
              numba_fillna (df_values E0) v = Inr (df_values df_test)"
    using run
    by (intro exI [of _ E] exI [of _ E0] exI [of _ "(dropna_any T)\<lparr>df_values := a_train\<rparr>"]
        exI [of _ "E0\<lparr>df_values := a_test\<rparr>"] exI [of _ "map (\<lambda>i. y ! i) train_index"]
        exI [of _ "map (\<lambda>i. y ! i) test_index"]) simp
  have second: "\<exists>E E0 df_train df_test y_train y_test.
              fold_preprocess ds' (Some policy) train_index' test_index' =
                Inr (Some v, df_train, df_test, y_train, y_test) \<and>
              numba_fillna (df_values (dropna_any T)) v = Inr (df_values df_train) \<and>
              iloc (ds_df ds') test_index' = Inr E \<and>
              loc_columns E (df_columns (dropna_any T)) = Inr E0 \<and>
              numba_fillna (df_values E0) v = Inr (df_values df_test)"
    using run' unfolding same_T same_v
    by (intro exI [of _ E'] exI [of _ E0'] exI [of _ "(dropna_any T)\<lparr>df_values := a_train'\<rparr>"]
        exI [of _ "E0'\<lparr>df_values := a_test'\<rparr>"] exI [of _ "map (\<lambda>i. y' ! i) train_index'"]
        exI [of _ "map (\<lambda>i. y' ! i) test_index'"]) simp
  show ?thesis using run(1) run(4) first second by blast
qed


lemmas fold_eval_defs =
  fold_preprocess_def fold_split_def fold_dropna_def fold_impute_def
  iloc_def take_rows_def ebind_def dropna_any_def column_def select_columns_def loc_columns_def
  positions_of_def feature_imputation_values_def mean_skipna_def median_skipna_def fsort_def
  numba_fillna_def array_sum_def np_where_isnan_def ncols_def where_row_def make_dataframe_def
  rectangular_def Let_def

theorem fold_fill_values_from_train_only_witness:
  "''impute_by_mean'' \<in> {''impute_by_mean'', ''impute_by_median'', ''zeros''} \<and>
   distinct (df_columns (ds_df example_ds)) \<and>
   ds_y example_ds = Some [Some 0, Some 1, None, Some 1] \<and>
   iloc (ds_df example_ds) [1, 2, 3] = iloc (ds_df example_ds_other_test) [1, 2, 3] \<and>
   fold_preprocess example_ds (Some ''impute_by_mean'') [1, 2, 3] [0] =
     Inr (Some [Num (17 / 30)],
          \<lparr>df_index = [''s1'', ''s2'', ''s3''], df_columns = [''cg1''],
           df_values = [[Num (3 / 10)], [Num (3 / 5)], [Num (4 / 5)]]\<rparr>,
          \<lparr>df_index = [''s0''], df_columns = [''cg1''], df_values = [[Num (17 / 30)]]\<rparr>,
          [Some 1, None, Some 1], [Some 0]) \<and>
   fold_preprocess example_ds_other_test (Some ''impute_by_mean'') [1, 2, 3] [0] =
     Inr (Some [Num (17 / 30)],
          \<lparr>df_index = [''s1'', ''s2'', ''s3''], df_columns = [''cg1''],
           df_values = [[Num (3 / 10)], [Num (3 / 5)], [Num (4 / 5)]]\<rparr>,
          \<lparr>df_index = [''s0''], df_columns = [''cg1''], df_values = [[Num 1]]\<rparr>,
          [Some 1, None, Some 1], [Some 0])"
  using fold_fill_values_from_train_only [of "''impute_by_mean''" example_ds
      "[Some 0, Some 1, None, Some 1]" "[1, 2, 3]" "[0]" example_ds_other_test
      "[Some 0, Some 1, None, Some 1]" "[1, 2, 3]" "[0]"]
  by (simp add: example_ds_def example_ds_other_test_def fold_eval_defs)

text \<open>
  Claim C7.  In a fold of a dataset with distinct feature ids, the columns of the train
  frame that reaches imputation and selection are the columns of the dataset with no
  missing value in the rows of the training partition (whatever the other rows hold), in
  their order; the values of the train frame are those of the dataset in these rows and
  columns; and the test frame has the same columns as the train frame (without a policy,
  with the values of the dataset in the rows of the test partition).
\<close>

theorem fold_keeps_observed_train_columns:
  fixes ds :: dataset and train_index test_index :: "nat list"
  defines "df \<equiv> ds_df ds"
  defines "keep \<equiv> filter (\<lambda>j. \<forall>i\<in>set train_index. \<not> isnan (df_values df ! i ! j))
                      [0..<length (df_columns df)]"
  assumes "distinct (df_columns df)"
    and "ds_y ds = Some y"
    and "\<forall>i\<in>set train_index \<union> set test_index. i < length (df_values df) \<and> i < length y"
    and "nan_policy \<in> {None, Some ''impute_by_mean'', Some ''impute_by_median'', Some ''zeros''}"
  shows "\<exists>imp_vals df_train df_test y_train y_test.
           fold_preprocess ds nan_policy train_index test_index =
             Inr (imp_vals, df_train, df_test, y_train, y_test) \<and>
           df_columns df_train = map (\<lambda>j. df_columns df ! j) keep \<and>
           df_values df_train = map (\<lambda>i. map (\<lambda>j. df_values df ! i ! j) keep) train_index \<and>
           df_columns df_test = df_columns df_train \<and>
           length (df_values df_test) = length test_index \<and>
           (nan_policy = None \<longrightarrow>
              df_values df_test = map (\<lambda>i. map (\<lambda>j. df_values df ! i ! j) keep) test_index)"
proof -
  let ?T = "df\<lparr>df_index := map (\<lambda>i. df_index df ! i) train_index,
                df_values := map (\<lambda>i. df_values df ! i) train_index\<rparr>"
  let ?E = "df\<lparr>df_index := map (\<lambda>i. df_index df ! i) test_index,
                df_values := map (\<lambda>i. df_values df ! i) test_index\<rparr>"
  note A = fold_preprocess_ok [OF assms(3) [unfolded df_def] assms(4) assms(5) [unfolded df_def],
      folded df_def, folded keep_def]
  have cols_T: "df_columns (select_columns ?T keep) = map (\<lambda>j. df_columns df ! j) keep"
    by (simp add: select_columns_def)
  have vals_T: "df_values (select_columns ?T keep) =
                  map (\<lambda>i. map (\<lambda>j. df_values df ! i ! j) keep) train_index"
    by (simp add: select_columns_def comp_def)
  have cols_E: "df_columns (select_columns ?E keep) = map (\<lambda>j. df_columns df ! j) keep"
    by (simp add: select_columns_def)
  have vals_E: "df_values (select_columns ?E keep) =
                  map (\<lambda>i. map (\<lambda>j. df_values df ! i ! j) keep) test_index"
    by (simp add: select_columns_def comp_def)
  show ?thesis
  proof (cases nan_policy)
    case None
    then show ?thesis
      using A(5) cols_T vals_T cols_E vals_E by simp
  next
    case (Some policy)
    with assms(6) have pol: "policy \<in> {''impute_by_mean'', ''impute_by_median'', ''zeros''}"
      by auto
    from A(6) [OF pol] obtain v a_train a_test where
      v: "feature_imputation_values (select_columns ?T keep) policy = Inr v"
      and a1: "numba_fillna (df_values (select_columns ?T keep)) v = Inr a_train"
      and a2: "numba_fillna (df_values (select_columns ?E keep)) v = Inr a_test"
      and run: "fold_preprocess ds (Some policy) train_index test_index =
         Inr (Some v, (select_columns ?T keep)\<lparr>df_values := a_train\<rparr>,
              (select_columns ?E keep)\<lparr>df_values := a_test\<rparr>,
              map (\<lambda>i. y ! i) train_index, map (\<lambda>i. y ! i) test_index)"
      by blast
    from feature_imputation_values_ok [OF pol, of "select_columns ?T keep"] v
    have lv: "length v = length keep" by (simp add: select_columns_def)
    have rect_T: "rectangular (df_values (select_columns ?T keep)) (length v)"
      unfolding lv by (rule rectangular_select_columns)
    have "list_all (list_all (\<lambda>x. \<not> isnan x)) (df_values (select_columns ?T keep))"
      unfolding vals_T by (auto simp: list_all_iff keep_def)
    from numba_fillna_no_nan [OF rect_T this] a1
    have train_same: "a_train = df_values (select_columns ?T keep)" by simp
    have rect_E: "rectangular (df_values (select_columns ?E keep)) (length v)"
      unfolding lv by (rule rectangular_select_columns)
    from numba_fillna_ok [OF rect_E] a2
    have "length a_test = length test_index" by (auto simp: select_columns_def)
    then show ?thesis
      using Some run train_same cols_T vals_T cols_E by simp
  qed
qed

theorem fold_keeps_observed_train_columns_witness:
  "distinct (df_columns (ds_df example_ds)) \<and>
   ds_y example_ds = Some [Some 0, Some 1, None, Some 1] \<and>
   filter (\<lambda>j. list_all (\<lambda>i. \<not> isnan (df_values (ds_df example_ds) ! i ! j)) [0, 1, 2])
     [0..<length (df_columns (ds_df example_ds))] = [0] \<and>
   fold_preprocess example_ds None [0, 1, 2] [3] =
     Inr (None,
          \<lparr>df_index = [''s0'', ''s1'', ''s2''], df_columns = [''cg0''],
           df_values = [[Num (1 / 10)], [Num (1 / 5)], [Num (2 / 5)]]\<rparr>,
          \<lparr>df_index = [''s3''], df_columns = [''cg0''], df_values = [[NaN]]\<rparr>,
          [Some 0, Some 1, None], [Some 1]) \<and>
   fold_preprocess example_ds (Some ''zeros'') [1, 2, 3] [0] =
     Inr (Some [Num 0],
          \<lparr>df_index = [''s1'', ''s2'', ''s3''], df_columns = [''cg1''],
           df_values = [[Num (3 / 10)], [Num (3 / 5)], [Num (4 / 5)]]\<rparr>,
          \<lparr>df_index = [''s0''], df_columns = [''cg1''], df_values = [[Num 0]]\<rparr>,
          [Some 1, None, Some 1], [Some 0])"
  using fold_keeps_observed_train_columns [of example_ds "[Some 0, Some 1, None, Some 1]"
      "[0, 1, 2]" "[3]" None]
    fold_keeps_observed_train_columns [of example_ds "[Some 0, Some 1, None, Some 1]"
      "[1, 2, 3]" "[0]" "Some ''zeros''"]
  by (simp add: example_ds_def fold_eval_defs)

section \<open>The predictions of a cross-validation run\<close>

lemma empty_lists_preds:
  "y_preds empty_lists = []" "pred_probs empty_lists = []"
  by (simp_all add: empty_lists_def)

lemma cv_fold_appends:
  assumes "cv_fold ext ds penalty folds feat_selection thresh nan_policy acc split = Inr acc'"
  shows "\<exists>r p q. cv_fold ext ds penalty folds feat_selection thresh nan_policy empty_lists split = Inr r \<and>
           y_preds r = [p] \<and> pred_probs r = [q] \<and>
           y_preds acc' = y_preds acc @ [p] \<and> pred_probs acc' = pred_probs acc @ [q]"
  using assms
  by (auto simp: cv_fold_def ebind_def empty_lists_def split: sum.splits prod.splits)

lemma cv_loop_predictions:
  assumes "cv_loop ext ds penalty folds feat_selection thresh nan_policy acc splits = Inr acc'"
  shows "\<exists>ps qs. length ps = length splits \<and> length qs = length splits \<and>
           (\<forall>k<length splits. \<exists>r.
              cv_fold ext ds penalty folds feat_selection thresh nan_policy empty_lists (splits ! k)
                = Inr r \<and>
              y_preds r = [ps ! k] \<and> pred_probs r = [qs ! k]) \<and>
           y_preds acc' = y_preds acc @ ps \<and> pred_probs acc' = pred_probs acc @ qs"
  using assms
proof (induction splits arbitrary: acc)
  case Nil
  then show ?case by simp
next
  case (Cons split rest)
  from Cons.prems obtain acc1 where
    step: "cv_fold ext ds penalty folds feat_selection thresh nan_policy acc split = Inr acc1"
    and rest: "cv_loop ext ds penalty folds feat_selection thresh nan_policy acc1 rest = Inr acc'"
    by (auto simp: ebind_def split: sum.splits)
  from cv_fold_appends [OF step] obtain r p q where
    r: "cv_fold ext ds penalty folds feat_selection thresh nan_policy empty_lists split = Inr r"
       "y_preds r = [p]" "pred_probs r = [q]"
    and acc1: "y_preds acc1 = y_preds acc @ [p]" "pred_probs acc1 = pred_probs acc @ [q]"
    by blast
  from Cons.IH [OF rest] obtain ps qs where
    len: "length ps = length rest" "length qs = length rest"
    and folds: "\<forall>k<length rest. \<exists>r.
              cv_fold ext ds penalty folds feat_selection thresh nan_policy empty_lists (rest ! k)
                = Inr r \<and>
              y_preds r = [ps ! k] \<and> pred_probs r = [qs ! k]"
    and acc': "y_preds acc' = y_preds acc1 @ ps" "pred_probs acc' = pred_probs acc1 @ qs"
    by blast
  have "\<forall>k<length (split # rest). \<exists>r.
              cv_fold ext ds penalty folds feat_selection thresh nan_policy empty_lists
                ((split # rest) ! k) = Inr r \<and>
              y_preds r = [(p # ps) ! k] \<and> pred_probs r = [(q # qs) ! k]"
  proof (intro allI impI)
    fix k assume "k < length (split # rest)"
    then show "\<exists>r. cv_fold ext ds penalty folds feat_selection thresh nan_policy empty_lists
                ((split # rest) ! k) = Inr r \<and>
              y_preds r = [(p # ps) ! k] \<and> pred_probs r = [(q # qs) ! k]"
      using r folds by (cases k) auto
  qed
  then show ?case
    using len acc1 acc'
    by (intro exI [of _ "p # ps"] exI [of _ "q # qs"]) simp
qed

text \<open>
  Claim C5, as the code has it.  After a run over any number of folds, \<open>y_pred\<close> is one
  flat sequence, the predicted classes of the folds concatenated in fold order.  The
  positive-class probabilities are not flattened: \<open>y_pred_prob\<close> is the list of the
  per-fold sequences, one entry per fold, in fold order.
\<close>

theorem cv_predictions_in_fold_order:
  assumes "cv_split ext CV (ds_df ds) = Inr splits"
    and "cv_train_test ext timestamp ds CV penalty folds feat_selection thresh nan_policy = Inr out"
  shows "\<exists>ps qs. length ps = length splits \<and> length qs = length splits \<and>
           (\<forall>k<length splits. \<exists>r.
              cv_fold ext ds penalty folds feat_selection thresh nan_policy empty_lists (splits ! k)
                = Inr r \<and>
              y_preds r = [ps ! k] \<and> pred_probs r = [qs ! k]) \<and>
           y_pred out = concat ps \<and> y_pred_prob out = qs"
proof -
  from assms obtain acc where
    loop: "cv_loop ext ds penalty folds feat_selection thresh nan_policy empty_lists splits = Inr acc"
    and out: "y_pred out = concat (y_preds acc)" "y_pred_prob out = pred_probs acc"
    by (auto simp: cv_train_test_def ebind_def split: sum.splits)
  have key: "length (y_preds acc) = length splits \<and> length (pred_probs acc) = length splits \<and>
           (\<forall>k<length splits. \<exists>r.
              cv_fold ext ds penalty folds feat_selection thresh nan_policy empty_lists (splits ! k)
                = Inr r \<and>
              y_preds r = [y_preds acc ! k] \<and> pred_probs r = [pred_probs acc ! k])"
    using cv_loop_predictions [OF loop] by (simp add: empty_lists_preds)
  show ?thesis
    unfolding out using key
    by (intro exI [of _ "y_preds acc"] exI [of _ "pred_probs acc"]) simp
qed


lemmas cv_eval_defs =
  cv_train_test_def cv_fold_def fold_select_def train_test_def scale_train_data_def
  second_column_def model_definition_def empty_lists_def example_sklearn_def example_split_def
  kfold_splits_def example_cv_ds_def example_df_def example_y_def fold_eval_defs

lemma cv_example_splits:
  "cv_split example_sklearn (KFold 3) (ds_df example_cv_ds) =
     Inr [([3, 4, 5, 6, 7], [0, 1, 2]), ([0, 1, 2, 6, 7], [3, 4, 5]), ([0, 1, 2, 3, 4, 5], [6, 7])]"
  by (simp add: example_sklearn_def example_split_def kfold_splits_def example_cv_ds_def
      example_df_def Let_def upt_conv_Cons)

text \<open>The claim as stated fails for the probabilities: a run of three folds over eight
  samples returns eight predicted classes in one sequence, and three sequences of
  probabilities.\<close>

theorem nested_probabilities_counterexample:
  "map_sum id (\<lambda>out. (y_pred out, y_pred_prob out))
     (cv_train_test example_sklearn ''11/04/2026, 12:00:00'' example_cv_ds (KFold 3)
        (Some ''l2'') 5 None (Num (1 / 100)) (Some ''impute_by_median'')) =
   Inr ([1, 1, 1, 1, 1, 1, 1, 1],
        [[Num (3 / 4), Num (3 / 4), Num (3 / 4)], [Num (3 / 4), Num (3 / 4), Num (3 / 4)],
         [Num (3 / 4), Num (3 / 4)]])"
  by (simp add: cv_eval_defs upt_conv_Cons)


theorem cv_predictions_in_fold_order_witness:
  "cv_split example_sklearn (KFold 3) (ds_df example_cv_ds) =
     Inr [([3, 4, 5, 6, 7], [0, 1, 2]), ([0, 1, 2, 6, 7], [3, 4, 5]), ([0, 1, 2, 3, 4, 5], [6, 7])] \<and>
   map_sum id y_pred
     (cv_train_test example_sklearn ''11/04/2026, 12:00:00'' example_cv_ds (KFold 3)
        (Some ''l2'') 5 None (Num (1 / 100)) (Some ''impute_by_median'')) =
   Inr (concat [[1, 1, 1], [1, 1, 1], [1, 1]]) \<and>
   map_sum id y_pred_prob
     (cv_train_test example_sklearn ''11/04/2026, 12:00:00'' example_cv_ds (KFold 3)
        (Some ''l2'') 5 None (Num (1 / 100)) (Some ''impute_by_median'')) =
   Inr [[Num (3 / 4), Num (3 / 4), Num (3 / 4)], [Num (3 / 4), Num (3 / 4), Num (3 / 4)],
        [Num (3 / 4), Num (3 / 4)]]"
  using cv_predictions_in_fold_order [OF cv_example_splits,
      of "''11/04/2026, 12:00:00''" "Some ''l2''" 5 None "Num (1 / 100)" "Some ''impute_by_median''"
        "projr (cv_train_test example_sklearn ''11/04/2026, 12:00:00'' example_cv_ds (KFold 3)
           (Some ''l2'') 5 None (Num (1 / 100)) (Some ''impute_by_median''))"]
  by (simp add: cv_eval_defs upt_conv_Cons)

section \<open>Samples with a missing target in training\<close>

lemma np_where_target:
  "np_where (map (\<lambda>t. t = Some label) y) = filter (\<lambda>i. y ! i = Some label) [0..<length y]"
  unfolding np_where_def by (rule filter_cong) simp_all

lemma group_rows_values:
  assumes "group_rows df y label = Inr g"
  shows "df_values g =
           map (\<lambda>i. df_values df ! i) (filter (\<lambda>i. y ! i = Some label) [0..<length y])"
  using assms by (auto simp: group_rows_def iloc_def np_where_target split: if_splits)

text \<open>
  Claim C8, as the code has it.  In feature selection the two comparison groups are the
  rows of the training frame whose target is 0 and the rows whose target is 1: a sample
  with a missing target is in neither.  The classifier fit makes no such selection: the
  model that \<open>train_test\<close> returns was fitted on the whole scaled training matrix and
  the whole vector of training targets, the missing ones included.
\<close>

theorem missing_targets_in_training:
  "(sel_by \<in> {''wilcox'', ''ttest''} \<and>
    select_features ext df y_train sel_by thresh = Inr feats \<longrightarrow>
      (\<exists>p_vals.
         (if sel_by = ''wilcox'' then mannwhitneyu ext else ttest_ind ext)
           (map (\<lambda>i. df_values df ! i) (filter (\<lambda>i. y_train ! i = Some 0) [0..<length y_train]))
           (map (\<lambda>i. df_values df ! i) (filter (\<lambda>i. y_train ! i = Some 1) [0..<length y_train]))
         = Inr p_vals)) \<and>
   (train_test ext X_train X_test y_train penalty seed folds n_jobs
      = Inr (model, scaler, y_pred_fold, y_pred_prob_fold) \<longrightarrow>
      (\<exists>params X_train_scaled.
         scaler_fit ext X_train = Inr scaler \<and>
         scaler_transform ext scaler X_train = Inr X_train_scaled \<and>
         model_definition penalty seed folds n_jobs None None 1000 (Some ''balanced'') = Inr params \<and>
         lr_fit ext params X_train_scaled y_train = Inr model))"
proof (intro conjI impI)
  assume a: "sel_by \<in> {''wilcox'', ''ttest''} \<and>
    select_features ext df y_train sel_by thresh = Inr feats"
  then obtain g0 g1 p_vals where
    "group_rows df y_train 0 = Inr g0" "group_rows df y_train 1 = Inr g1"
    "(if sel_by = ''wilcox'' then mannwhitneyu ext else ttest_ind ext)
        (df_values g0) (df_values g1) = Inr p_vals"
    by (auto simp: select_features_def ebind_def split: sum.splits if_splits)
  then show "\<exists>p_vals.
         (if sel_by = ''wilcox'' then mannwhitneyu ext else ttest_ind ext)
           (map (\<lambda>i. df_values df ! i) (filter (\<lambda>i. y_train ! i = Some 0) [0..<length y_train]))
           (map (\<lambda>i. df_values df ! i) (filter (\<lambda>i. y_train ! i = Some 1) [0..<length y_train]))
         = Inr p_vals"
    by (auto dest!: group_rows_values)
next
  assume "train_test ext X_train X_test y_train penalty seed folds n_jobs
      = Inr (model, scaler, y_pred_fold, y_pred_prob_fold)"
  then show "\<exists>params X_train_scaled.
         scaler_fit ext X_train = Inr scaler \<and>
         scaler_transform ext scaler X_train = Inr X_train_scaled \<and>
         model_definition penalty seed folds n_jobs None None 1000 (Some ''balanced'') = Inr params \<and>
         lr_fit ext params X_train_scaled y_train = Inr model"
    by (auto simp: train_test_def scale_train_data_def ebind_def split: sum.splits prod.splits)
qed

text \<open>The claim as stated fails for the fit: with a training partition of three samples,
  the second without a target, the classifier is fitted on all three rows and on the
  targets 0, missing, 1.  (The example classifier records what it was fitted on.)\<close>

theorem fit_on_missing_target_counterexample:
  "map_sum id (\<lambda>(model, rest). snd model)
     (train_test example_sklearn [[Num 1], [Num 2], [Num 3]] [[Num 4]] [Some 0, None, Some 1]
        (Some ''l2'') 42 5 (- 1)) =
   Inr ([[Num 1], [Num 2], [Num 3]], [Some 0, None, Some 1])"
  by (simp add: train_test_def scale_train_data_def second_column_def model_definition_def
      example_sklearn_def ebind_def)

theorem missing_targets_in_training_witness:
  "''wilcox'' \<in> {''wilcox'', ''ttest''} \<and>
   select_features example_sklearn (ds_df example_ds) [Some 0, None, Some 1, Some 1] ''wilcox''
       (Num (5 / 100))
     = Inr [''cg0''] \<and>
   filter (\<lambda>i. [Some 0, None, Some 1, Some (1::int)] ! i = Some 0) [0..<4] = [0] \<and>
   filter (\<lambda>i. [Some 0, None, Some 1, Some (1::int)] ! i = Some 1) [0..<4] = [2, 3] \<and>
   map_sum id (\<lambda>(model, rest). snd model)
     (train_test example_sklearn [[Num 1], [Num 2], [Num 3], [Num 4]] [[Num 5]]
        [Some 0, None, Some 1, Some 1] (Some ''l2'') 42 5 (- 1)) =
   Inr ([[Num 1], [Num 2], [Num 3], [Num 4]], [Some 0, None, Some 1, Some 1])"
  using missing_targets_in_training [of "''wilcox''" example_sklearn "ds_df example_ds"
      "[Some 0, None, Some 1, Some 1]" "Num (5 / 100)" "[''cg0'']"
      "[[Num 1], [Num 2], [Num 3], [Num 4]]" "[[Num 5]]" "Some ''l2''" 42 5 "- 1"
      "fst (projr (train_test example_sklearn [[Num 1], [Num 2], [Num 3], [Num 4]] [[Num 5]]
              [Some 0, None, Some 1, Some 1] (Some ''l2'') 42 5 (- 1)))"
      "fst (snd (projr (train_test example_sklearn [[Num 1], [Num 2], [Num 3], [Num 4]] [[Num 5]]
              [Some 0, None, Some 1, Some 1] (Some ''l2'') 42 5 (- 1))))"
      "fst (snd (snd (projr (train_test example_sklearn [[Num 1], [Num 2], [Num 3], [Num 4]]
              [[Num 5]] [Some 0, None, Some 1, Some 1] (Some ''l2'') 42 5 (- 1)))))"
      "snd (snd (snd (projr (train_test example_sklearn [[Num 1], [Num 2], [Num 3], [Num 4]]
              [[Num 5]] [Some 0, None, Some 1, Some 1] (Some ''l2'') 42 5 (- 1)))))"]
  by (simp add: select_features_def group_rows_def np_where_def iloc_def compress_def
      train_test_def scale_train_data_def second_column_def model_definition_def
      example_sklearn_def example_ds_def ebind_def upt_conv_Cons)

section \<open>What numba\_fillna writes\<close>

lemma fadd_NaN_right: "fadd x NaN = NaN"
  by (cases x) simp_all

lemma foldl_fadd_NaN: "foldl fadd NaN xs = NaN"
  by (induction xs) simp_all

lemma foldl_fadd_has_nan:
  "x \<in> set xs \<Longrightarrow> isnan x \<Longrightarrow> foldl fadd acc xs = NaN"
proof (induction xs arbitrary: acc)
  case Nil
  then show ?case by simp
next
  case (Cons z zs)
  show ?case
  proof (cases "isnan z")
    case True
    then have "z = NaN" by (cases z) simp_all
    then show ?thesis by (simp add: fadd_NaN_right foldl_fadd_NaN)
  next
    case False
    with Cons.prems have "x \<in> set zs" by auto
    then show ?thesis using Cons.IH Cons.prems(2) by simp
  qed
qed

lemma array_sum_not_nan:
  assumes "\<not> isnan (array_sum a)"
  shows "list_all (list_all (\<lambda>x. \<not> isnan x)) a"
proof -
  have "\<not> isnan x" if "x \<in> set (concat a)" for x
  proof
    assume "isnan x"
    with that have "array_sum a = NaN"
      unfolding array_sum_def by (rule foldl_fadd_has_nan)
    with assms show False by simp
  qed
  then show ?thesis by (auto simp: list_all_iff)
qed

text \<open>
  With one fill value per column, \<open>numba_fillna\<close> returns the matrix in which every NaN
  entry is replaced by the fill value of its column and every other entry is kept.
\<close>

theorem numba_fillna_fills:
  assumes "rectangular a (length values)"
  shows "numba_fillna a values =
           Inr (map (\<lambda>row. map2 (\<lambda>x v. if isnan x then v else x) row values) a)"
proof -
  have rows: "map (\<lambda>row. where_row row values) a =
              map (\<lambda>row. map2 (\<lambda>x v. if isnan x then v else x) row values) a"
    using assms by (intro map_cong refl where_row_aligned) (simp add: rectangular_def list_all_iff)
  show ?thesis
  proof (cases "isnan (array_sum a)")
    case True
    then have "a \<noteq> []" using array_sum_empty by auto
    with assms True show ?thesis
      by (simp add: numba_fillna_def np_where_isnan_aligned rows)
  next
    case False
    then have "list_all (list_all (\<lambda>x. \<not> isnan x)) a" by (rule array_sum_not_nan)
    with assms have "map (\<lambda>row. where_row row values) a = a"
      by (intro map_idI where_row_no_nan) (auto simp: rectangular_def list_all_iff)
    with False rows show ?thesis by (simp add: numba_fillna_def)
  qed
qed

theorem numba_fillna_fills_witness:
  "rectangular [[NaN, Num 2], [Num 3, NaN]] (length [Num 5, Num 7]) \<and>
   numba_fillna [[NaN, Num 2], [Num 3, NaN]] [Num 5, Num 7] = Inr [[Num 5, Num 2], [Num 3, Num 7]]"
  using numba_fillna_fills [of "[[NaN, Num 2], [Num 3, NaN]]" "[Num 5, Num 7]"]
  by (simp add: rectangular_def)

section \<open>A failing fold\<close>

lemma cv_fold_error_any_lists:
  assumes "cv_fold ext ds penalty folds feat_selection thresh nan_policy acc split = Inl e"
  shows "cv_fold ext ds penalty folds feat_selection thresh nan_policy acc' split = Inl e"
  using assms
  by (auto simp: cv_fold_def ebind_def split: sum.splits prod.splits)

lemma cv_loop_fails:
  assumes "k < length splits"
    and "cv_fold ext ds penalty folds feat_selection thresh nan_policy empty_lists (splits ! k) = Inl e"
  shows "\<exists>e'. cv_loop ext ds penalty folds feat_selection thresh nan_policy acc splits = Inl e'"
  using assms
proof (induction splits arbitrary: acc k)
  case Nil
  then show ?case by simp
next
  case (Cons split rest)
  show ?case
  proof (cases "cv_fold ext ds penalty folds feat_selection thresh nan_policy acc split")
    case (Inl e0)
    then show ?thesis by (simp add: ebind_def)
  next
    case (Inr acc1)
    have "k \<noteq> 0"
    proof
      assume "k = 0"
      with Cons.prems(2)
      have "cv_fold ext ds penalty folds feat_selection thresh nan_policy empty_lists split = Inl e"
        by simp
      from cv_fold_error_any_lists [OF this, of acc] Inr show False by simp
    qed
    then obtain k' where k': "k = Suc k'" by (cases k) auto
    with Cons.prems have "k' < length rest"
      "cv_fold ext ds penalty folds feat_selection thresh nan_policy empty_lists (rest ! k') = Inl e"
      by simp_all
    from Cons.IH [OF this, of acc1] Inr show ?thesis by (simp add: ebind_def)
  qed
qed

text \<open>
  An error in a fold is not caught: when any fold of the split fails, taken by itself, the
  whole run fails, and no result is returned for the other folds.
\<close>

theorem cv_run_fails_with_a_fold:
  assumes "cv_split ext CV (ds_df ds) = Inr splits"
    and "k < length splits"
    and "cv_fold ext ds penalty folds feat_selection thresh nan_policy empty_lists (splits ! k) = Inl e"
  shows "\<exists>e'. cv_train_test ext timestamp ds CV penalty folds feat_selection thresh nan_policy = Inl e'"
proof -
  from cv_loop_fails [OF assms(2,3), of empty_lists] obtain e' where
    "cv_loop ext ds penalty folds feat_selection thresh nan_policy empty_lists splits = Inl e'"
    by blast
  with assms(1) show ?thesis by (simp add: cv_train_test_def ebind_def)
qed

theorem cv_run_fails_with_a_fold_witness:
  "cv_split example_sklearn (KFold 3) (ds_df example_cv_ds) =
     Inr [([3, 4, 5, 6, 7], [0, 1, 2]), ([0, 1, 2, 6, 7], [3, 4, 5]), ([0, 1, 2, 3, 4, 5], [6, 7])] \<and>
   (2::nat) < 3 \<and>
   cv_fold example_sklearn example_cv_ds (Some ''ridge'') 5 None (Num (1 / 100))
     (Some ''impute_by_median'') empty_lists ([0, 1, 2, 3, 4, 5], [6, 7]) = Inl UnboundLocalError \<and>
   cv_train_test example_sklearn ''11/04/2026, 12:00:00'' example_cv_ds (KFold 3) (Some ''ridge'') 5
     None (Num (1 / 100)) (Some ''impute_by_median'') = Inl UnboundLocalError"
  using cv_run_fails_with_a_fold [OF cv_example_splits, of 2 "Some ''ridge''" 5 None
      "Num (1 / 100)" "Some ''impute_by_median''" UnboundLocalError "''11/04/2026, 12:00:00''"]
  by (simp add: cv_eval_defs upt_conv_Cons)

end
